theory Spec2Isabelle
  imports Complex_Main
begin

section \<open>JavaScript values of the data layer\<close>

text \<open>
  The module \<open>firebase-data.js\<close> reads three Firestore collections (activity reports,
  preaching categories, users), keeps them in a module-level cache and derives four views.
  Documents are schemaless; the embedding gives every field the type the data model
  assigns to it and wraps it in \<open>option\<close>, where \<open>None\<close> is a field the document does
  not have (\<open>undefined\<close>). Counts are JavaScript numbers holding integers and are
  modelled as \<open>int\<close>.

  The source tests fields by truthiness. For the types used here: an absent field is
  falsy, a number is truthy iff it is not \<open>0\<close>, a string is truthy iff it is not empty,
  arrays and objects are always truthy.
\<close>

definition truthy_num :: "int option \<Rightarrow> bool" where
  "truthy_num x = (case x of None \<Rightarrow> False | Some n \<Rightarrow> n \<noteq> 0)"

definition truthy_str :: "string option \<Rightarrow> bool" where
  "truthy_str x = (case x of None \<Rightarrow> False | Some s \<Rightarrow> s \<noteq> [])"

text \<open>\<open>x || 0\<close> on an optional number and \<open>x || d\<close> on an optional string.\<close>

definition num_or_zero :: "int option \<Rightarrow> int" where
  "num_or_zero x = (case x of None \<Rightarrow> 0 | Some n \<Rightarrow> (if n \<noteq> 0 then n else 0))"

definition str_or :: "string option \<Rightarrow> string \<Rightarrow> string" where
  "str_or x d = (case x of None \<Rightarrow> d | Some s \<Rightarrow> (if s \<noteq> [] then s else d))"

text \<open>\<open>Math.floor(n * 1.5)\<close> for an array length \<open>n\<close>.\<close>

definition floor_1_5 :: "nat \<Rightarrow> int" where
  "floor_1_5 n = int ((3 * n) div 2)"

subsection \<open>Plain objects used as dictionaries\<close>

text \<open>
  A plain object with string keys is a list of its own properties in creation order.
  Assigning to an existing key keeps its position, assigning to a new key appends.
  \<open>Object.keys\<close>, \<open>Object.values\<close> and \<open>Object.entries\<close> enumerate array-index keys
  (canonical decimal strings below \<open>2^32 - 1\<close>) first, in ascending numeric order, and
  then every other key in creation order.

  Reading \<open>obj[key]\<close> finds an own property first and otherwise follows the prototype
  chain: every object created by \<open>{}\<close> inherits the members of \<open>Object.prototype\<close>. A read
  therefore has three results: the own value, an inherited member, or \<open>undefined\<close>. The
  inherited members are functions, except \<open>__proto__\<close>, whose value is \<open>Object.prototype\<close>
  itself; all of them are truthy. Of the properties this module reads from a looked-up
  value, a built-in function has only \<open>name\<close> (its own name, \<open>Object\<close> for \<open>constructor\<close>),
  and \<open>Object.prototype\<close> has none.
\<close>

type_synonym 'v jsobj = "(string \<times> 'v) list"

definition Object_prototype_names :: "string list" where
  "Object_prototype_names =
     [''constructor'', ''__defineGetter__'', ''__defineSetter__'', ''hasOwnProperty'',
      ''__lookupGetter__'', ''__lookupSetter__'', ''isPrototypeOf'', ''propertyIsEnumerable'',
      ''toString'', ''valueOf'', ''__proto__'', ''toLocaleString'']"

datatype 'v lookup = Own 'v | Inherited string | Absent

definition obj_get :: "'v jsobj \<Rightarrow> string \<Rightarrow> 'v lookup" where
  "obj_get obj k =
     (case map_of obj k of
        Some v \<Rightarrow> Own v
      | None \<Rightarrow> (if k \<in> set Object_prototype_names then Inherited k else Absent))"

text \<open>The \<open>name\<close> property of the inherited member \<open>m\<close>.\<close>

definition builtin_name :: "string \<Rightarrow> string option" where
  "builtin_name m =
     (if m = ''constructor'' then Some ''Object''
      else if m = ''__proto__'' then None
      else Some m)"

fun obj_set :: "'v jsobj \<Rightarrow> string \<Rightarrow> 'v \<Rightarrow> 'v jsobj" where
  "obj_set [] k v = [(k, v)]"
| "obj_set ((k', v') # ps) k v =
     (if k' = k then (k', v) # ps else (k', v') # obj_set ps k v)"

definition is_digit :: "char \<Rightarrow> bool" where
  "is_digit c = (48 \<le> (of_char c :: nat) \<and> (of_char c :: nat) \<le> 57)"

definition nat_of_digits :: "string \<Rightarrow> nat" where
  "nat_of_digits s = foldl (\<lambda>n c. 10 * n + ((of_char c :: nat) - 48)) 0 s"

definition is_array_index :: "string \<Rightarrow> bool" where
  "is_array_index s =
     (s \<noteq> [] \<and> list_all is_digit s \<and> (if hd s = CHR ''0'' then length s = 1 else True)
      \<and> nat_of_digits s < 2 ^ 32 - 1)"

definition Object_entries :: "'v jsobj \<Rightarrow> (string \<times> 'v) list" where
  "Object_entries obj =
     sort_key (\<lambda>p. nat_of_digits (fst p)) (filter (\<lambda>p. is_array_index (fst p)) obj)
     @ filter (\<lambda>p. \<not> is_array_index (fst p)) obj"

definition Object_keys :: "'v jsobj \<Rightarrow> string list" where
  "Object_keys obj = map fst (Object_entries obj)"

definition Object_values :: "'v jsobj \<Rightarrow> 'v list" where
  "Object_values obj = map snd (Object_entries obj)"

text \<open>
  \<open>obj[key]\<close> converts the key to a property name: an absent key reads the
  property named \<open>undefined\<close>.
\<close>

definition prop_key :: "string option \<Rightarrow> string" where
  "prop_key k = (case k of None \<Rightarrow> ''undefined'' | Some s \<Rightarrow> s)"

text \<open>\<open>xs.slice(0, n)\<close>: a negative \<open>n\<close> counts from the end of the array.\<close>

definition slice0 :: "int \<Rightarrow> 'a list \<Rightarrow> 'a list" where
  "slice0 n xs = (if 0 \<le> n then take (nat n) xs else take (length xs - nat (- n)) xs)"

section \<open>Data model\<close>

record contact =
  isNewContact :: "bool option"
  isNew :: "bool option"
  contactType :: "string option"

text \<open>\<open>booksDistributed\<close> is either one number or an object with a count per size.\<close>

datatype book_counts =
    BookCount int
  | BookSizes (big: "int option") (medium: "int option") (small: "int option")

text \<open>
  \<open>createdAt\<close> is a store timestamp, whose \<open>toDate().toISOString()\<close> text is kept, or
  an ISO string, which has no \<open>toDate\<close> method.
\<close>

datatype timestamp = StoreTimestamp string | IsoString string

record report =
  report_id :: "string option"
  createdBy :: "string option"
  createdAt :: "timestamp option"
  date :: "string option"
  categoryId :: "string option"
  report_categoryName :: "string option"
  booksDistributed :: "book_counts option"
  contacts :: "contact list option"
  newContacts :: "int option"
  prasadamServed :: "int option"

record category =
  categoryName :: "string option"
  name :: "string option"

record user =
  displayName :: "string option"
  user_name :: "string option"
  email :: "string option"
  temple :: "string option"

text \<open>The empty object \<open>{}\<close> that stands in for a missing category or user.\<close>

definition empty_category :: category where
  "empty_category = \<lparr>categoryName = None, name = None\<rparr>"

definition empty_user :: user where
  "empty_user = \<lparr>displayName = None, user_name = None, email = None, temple = None\<rparr>"

section \<open>Per-report counts\<close>

text \<open>
  The three aggregations compute the book total of a report with the same inline code:
  nothing when \<open>booksDistributed\<close> is falsy, the sum of the three sizes (each \<open>|| 0\<close>)
  for an object, the number itself otherwise.
\<close>

definition countBooks :: "report \<Rightarrow> int" where
  "countBooks r =
     (case booksDistributed r of
        None \<Rightarrow> 0
      | Some (BookCount n) \<Rightarrow> (if n \<noteq> 0 then n else 0)
      | Some (BookSizes b m s) \<Rightarrow> num_or_zero b + num_or_zero m + num_or_zero s)"

text \<open>The filter predicate of \<open>calculatePreachingImpact\<close> for new contacts.\<close>

definition isNewContactEntry :: "contact \<Rightarrow> bool" where
  "isNewContactEntry c =
     (isNewContact c = Some True \<or> isNew c = Some True
      \<or> (truthy_str (contactType c) \<and> contactType c = Some ''new''))"

text \<open>
  New contacts of one report: with a \<open>contacts\<close> array, the entries marked new, or the
  whole array when none is marked; otherwise a truthy \<open>newContacts\<close>; otherwise nothing.
\<close>

definition countNewContacts :: "report \<Rightarrow> int" where
  "countNewContacts r =
     (case contacts r of
        Some cs \<Rightarrow>
          (let newContacts = filter isNewContactEntry cs
           in if length newContacts > 0 then int (length newContacts) else int (length cs))
      | None \<Rightarrow> (case newContacts r of
                   None \<Rightarrow> 0
                 | Some n \<Rightarrow> (if n \<noteq> 0 then n else 0)))"

text \<open>
  Prasadam of one report: a truthy \<open>prasadamServed\<close>, otherwise the estimate
  \<open>Math.floor(contacts.length * 1.5)\<close> when there is a \<open>contacts\<close> array, otherwise nothing.
  \<open>calculatePreachingImpact\<close> tests \<open>report.contacts\<close>, the other two views test
  \<open>report.contacts && Array.isArray(report.contacts)\<close>; on an optional array both are the
  same test.
\<close>

definition countPrasadam :: "report \<Rightarrow> int" where
  "countPrasadam r =
     (if truthy_num (prasadamServed r) then num_or_zero (prasadamServed r)
      else (case contacts r of
              Some cs \<Rightarrow> floor_1_5 (length cs)
            | None \<Rightarrow> 0))"

section \<open>Impact totals: \<open>calculatePreachingImpact\<close>\<close>

text \<open>The running totals of the \<open>forEach\<close> loop; the \<open>Set\<close> keeps insertion order.\<close>

record impact_acc =
  acc_books :: int
  acc_prasadam :: int
  acc_newContacts :: int
  templesWithReports :: "string list"

definition set_add :: "string list \<Rightarrow> string \<Rightarrow> string list" where
  "set_add s x = (if x \<in> set s then s else s @ [x])"

text \<open>
  One round of the loop. An inherited member found under \<open>createdBy\<close> is truthy but has no
  \<open>temple\<close>, so it adds nothing to the set.
\<close>

definition impact_step :: "user jsobj \<Rightarrow> report \<Rightarrow> impact_acc \<Rightarrow> impact_acc" where
  "impact_step users r acc =
     (let acc1 = acc\<lparr>acc_books := acc_books acc + countBooks r\<rparr>;
          acc2 = acc1\<lparr>acc_newContacts := acc_newContacts acc1 + countNewContacts r\<rparr>;
          acc3 = acc2\<lparr>acc_prasadam := acc_prasadam acc2 + countPrasadam r\<rparr>
      in if truthy_str (createdBy r)
         then (case obj_get users (prop_key (createdBy r)) of
                 Own u \<Rightarrow>
                   (if truthy_str (temple u)
                    then acc3\<lparr>templesWithReports :=
                                 set_add (templesWithReports acc3) (str_or (temple u) [])\<rparr>
                    else acc3)
               | Inherited m \<Rightarrow> acc3
               | Absent \<Rightarrow> acc3)
         else acc3)"

record impact =
  totalReports :: nat
  totalBooksDistributed :: int
  totalPrasadamServed :: int
  livesTouched :: int
  activePreachers :: nat
  citiesCovered :: nat

text \<open>The body of \<open>calculatePreachingImpact\<close> after the two fetches.\<close>

definition impactTotals :: "report list \<Rightarrow> user jsobj \<Rightarrow> impact" where
  "impactTotals reports users =
     (let acc = fold (impact_step users) reports
                  \<lparr>acc_books = 0, acc_prasadam = 0, acc_newContacts = 0,
                   templesWithReports = []\<rparr>;
          totalRegisteredUsers = length (Object_keys users)
      in \<lparr>totalReports = length reports,
          totalBooksDistributed = acc_books acc,
          totalPrasadamServed =
            (if acc_prasadam acc \<noteq> 0 then acc_prasadam acc else acc_newContacts acc * 2),
          livesTouched = acc_newContacts acc,
          activePreachers = totalRegisteredUsers,
          citiesCovered = length (templesWithReports acc)\<rparr>)"

text \<open>
  The claim's reading of the per-report prasadam count, word for word: \<open>prasadamServed\<close>
  if present, otherwise the estimate when \<open>contacts\<close> is present, otherwise \<open>0\<close>; and
  the total it prescribes.
\<close>

definition normalizePrasadamCount_spec :: "report \<Rightarrow> int" where
  "normalizePrasadamCount_spec r =
     (case prasadamServed r of
        Some n \<Rightarrow> n
      | None \<Rightarrow> (case contacts r of Some cs \<Rightarrow> floor_1_5 (length cs) | None \<Rightarrow> 0))"

definition totalPrasadamServed_spec :: "report list \<Rightarrow> user jsobj \<Rightarrow> int" where
  "totalPrasadamServed_spec reports users =
     (let s = sum_list (map normalizePrasadamCount_spec reports)
      in if s = 0 then livesTouched (impactTotals reports users) * 2 else s)"

text \<open>
  The temple a report adds to \<open>templesWithReports\<close>: the non-empty temple of the directory
  entry named by a non-empty \<open>createdBy\<close>, if there is one.
\<close>

definition reportTemple :: "user jsobj \<Rightarrow> report \<Rightarrow> string option" where
  "reportTemple users r =
     (case createdBy r of
        None \<Rightarrow> None
      | Some k \<Rightarrow>
          (if k = [] then None
           else (case map_of users k of
                   None \<Rightarrow> None
                 | Some u \<Rightarrow>
                     (case temple u of
                        None \<Rightarrow> None
                      | Some t \<Rightarrow> (if t = [] then None else Some t)))))"

section \<open>Enriched recent rows: \<open>getRecentReports\<close>\<close>

record row =
  row_id :: "string option"
  row_date :: string
  preacher :: string
  row_temple :: string
  activity :: string
  row_books :: int
  row_prasadam :: int
  row_contacts :: nat
  row_createdAt :: "timestamp option"

text \<open>\<open>report.createdAt?.toDate?.()?.toISOString().split('T')[0]\<close>\<close>

definition isoDay :: "timestamp option \<Rightarrow> string option" where
  "isoDay t =
     (case t of
        Some (StoreTimestamp txt) \<Rightarrow> Some (takeWhile (\<lambda>c. c \<noteq> CHR ''T'') txt)
      | Some (IsoString s) \<Rightarrow> None
      | None \<Rightarrow> None)"

text \<open>
  The activity name of a row. The \<open>if / else if\<close> chain takes the first truthy string of
  \<open>category.categoryName\<close>, \<open>report.categoryName\<close>, \<open>category.name\<close> and starts from
  \<open>'Unknown Activity'\<close>.
\<close>

definition activityName :: "category \<Rightarrow> report \<Rightarrow> string" where
  "activityName cat r =
     (if truthy_str (categoryName cat) then str_or (categoryName cat) ''Unknown Activity''
      else if truthy_str (report_categoryName r)
           then str_or (report_categoryName r) ''Unknown Activity''
      else if truthy_str (name cat) then str_or (name cat) ''Unknown Activity''
      else ''Unknown Activity'')"

text \<open>
  \<open>categories[report.categoryId] || {}\<close> and \<open>users[report.createdBy] || {}\<close>, as far as the
  fields read from them go: an inherited member is truthy, so it is used instead of
  \<open>{}\<close>, and shows its \<open>name\<close> only.
\<close>

definition inherited_category :: "string \<Rightarrow> category" where
  "inherited_category m = \<lparr>categoryName = None, name = builtin_name m\<rparr>"

definition inherited_user :: "string \<Rightarrow> user" where
  "inherited_user m =
     \<lparr>displayName = None, user_name = builtin_name m, email = None, temple = None\<rparr>"

definition lookupCategory :: "category jsobj \<Rightarrow> report \<Rightarrow> category" where
  "lookupCategory categories r =
     (case obj_get categories (prop_key (categoryId r)) of
        Own c \<Rightarrow> c
      | Inherited m \<Rightarrow> inherited_category m
      | Absent \<Rightarrow> empty_category)"

definition lookupUser :: "user jsobj \<Rightarrow> report \<Rightarrow> user" where
  "lookupUser users r =
     (case obj_get users (prop_key (createdBy r)) of
        Own u \<Rightarrow> u
      | Inherited m \<Rightarrow> inherited_user m
      | Absent \<Rightarrow> empty_user)"

definition enrichReport :: "category jsobj \<Rightarrow> user jsobj \<Rightarrow> report \<Rightarrow> row" where
  "enrichReport categories users r =
     (let cat = lookupCategory categories r;
          u = lookupUser users r
      in \<lparr>row_id = report_id r,
          row_date = str_or (date r) (str_or (isoDay (createdAt r)) ''N/A''),
          preacher = str_or (displayName u) (str_or (user_name u) (str_or (email u) ''Unknown'')),
          row_temple = str_or (temple u) ''N/A'',
          activity = activityName cat r,
          row_books = countBooks r,
          row_prasadam = countPrasadam r,
          row_contacts = (case contacts r of Some cs \<Rightarrow> length cs | None \<Rightarrow> 0),
          row_createdAt = createdAt r\<rparr>)"

text \<open>The body of \<open>getRecentReports\<close> after the three fetches.\<close>

definition recentRows ::
  "int \<Rightarrow> report list \<Rightarrow> category jsobj \<Rightarrow> user jsobj \<Rightarrow> row list" where
  "recentRows limitCount reports categories users =
     map (enrichReport categories users) (slice0 limitCount reports)"

text \<open>
  The claim's resolver, word for word: \<open>category.categoryName\<close>, then
  \<open>report.categoryName\<close>, then \<open>category.name\<close>, then the fallback literal of the view.
\<close>

definition resolveCategoryName_spec :: "string \<Rightarrow> category \<Rightarrow> report \<Rightarrow> string" where
  "resolveCategoryName_spec fallback cat r =
     str_or (categoryName cat) (str_or (report_categoryName r) (str_or (name cat) fallback))"

section \<open>Errors and outcomes\<close>

text \<open>
  A JavaScript computation either returns a value or throws. \<open>StoreError\<close> is a rejection
  of the external store, \<open>TypeError\<close> a property read on \<open>undefined\<close>.
\<close>

datatype js_error = StoreError string | TypeError string

datatype 'a outcome = Returned 'a | Thrown js_error

section \<open>Regional series: \<open>getChartData\<close>\<close>

record region =
  books :: int
  prasadam :: int
  events :: int

text \<open>
  \<open>obj[k].field += x\<close> changes the value stored under an existing key in place.
\<close>

definition obj_modify :: "'v jsobj \<Rightarrow> string \<Rightarrow> ('v \<Rightarrow> 'v) \<Rightarrow> 'v jsobj" where
  "obj_modify obj k f = map (\<lambda>p. if fst p = k then (fst p, f (snd p)) else p) obj"

text \<open>The grouping key of a report: \<open>(users[report.createdBy] || {}).temple || 'Unknown'\<close>.\<close>

definition reportRegion :: "user jsobj \<Rightarrow> report \<Rightarrow> string" where
  "reportRegion users r = str_or (temple (lookupUser users r)) ''Unknown''"

text \<open>
  One round of the loop. \<open>if (!regionData[temple])\<close> creates the group only when the read
  is \<open>undefined\<close>. For a temple named like a member of \<open>Object.prototype\<close> the read finds
  the inherited member, no group is created, and the three \<open>+=\<close> write \<open>NaN\<close> to properties
  of that built-in object: \<open>regionData\<close> stays as it is. (A \<open>NaN\<close> left on a built-in is
  falsy, so every later read of this module treats it like a missing property.)
\<close>

definition add_report :: "report \<Rightarrow> region \<Rightarrow> region" where
  "add_report r g =
     (let g1 = g\<lparr>books := books g + countBooks r\<rparr>;
          g2 = g1\<lparr>prasadam := prasadam g1 + countPrasadam r\<rparr>
      in g2\<lparr>events := events g2 + 1\<rparr>)"

definition chart_step :: "user jsobj \<Rightarrow> report \<Rightarrow> region jsobj \<Rightarrow> region jsobj" where
  "chart_step users r regionData =
     (let templeKey = reportRegion users r
      in case obj_get regionData templeKey of
           Own g \<Rightarrow> obj_modify regionData templeKey (add_report r)
         | Inherited m \<Rightarrow> regionData
         | Absent \<Rightarrow>
             obj_modify
               (obj_set regionData templeKey \<lparr>books = 0, prasadam = 0, events = 0\<rparr>)
               templeKey (add_report r))"

record chart =
  regions :: "string list"
  booksData :: "int list"
  prasadamData :: "int list"
  eventsData :: "int list"

text \<open>
  The body of the \<open>try\<close> block after the two fetches. The regions are the first five keys
  that \<open>Object.keys\<close> lists; they are own keys, so each \<open>regionData[region]\<close> reads the own
  property listed with that key, and nothing throws.
\<close>

definition chartSeries :: "report list \<Rightarrow> user jsobj \<Rightarrow> chart outcome" where
  "chartSeries reports users =
     (let regionData = fold (chart_step users) reports [];
          es = take 5 (Object_entries regionData)
      in Returned \<lparr>regions = map fst es,
                    booksData = map (\<lambda>p. books (snd p)) es,
                    prasadamData = map (\<lambda>p. prasadam (snd p)) es,
                    eventsData = map (\<lambda>p. events (snd p)) es\<rparr>)"

definition fallbackChart :: chart where
  "fallbackChart =
     \<lparr>regions = [''Kuala Lumpur'', ''Penang'', ''Johor'', ''Ipoh'', ''Kuching''],
      booksData = [0, 0, 0, 0, 0],
      prasadamData = [0, 0, 0, 0, 0],
      eventsData = [0, 0, 0, 0, 0]\<rparr>"

text \<open>
  The distinct elements of a list in the order of their first occurrence, and the totals
  of the reports of one region: the quantities the regional series is measured against.
\<close>

fun first_occurrences :: "'a list \<Rightarrow> 'a list" where
  "first_occurrences [] = []"
| "first_occurrences (x # xs) = x # filter (\<lambda>y. y \<noteq> x) (first_occurrences xs)"

definition regionReports :: "user jsobj \<Rightarrow> report list \<Rightarrow> string \<Rightarrow> report list" where
  "regionReports users reports k = filter (\<lambda>r. reportRegion users r = k) reports"

definition regionTotals :: "user jsobj \<Rightarrow> report list \<Rightarrow> string \<Rightarrow> region" where
  "regionTotals users reports k =
     \<lparr>books = sum_list (map countBooks (regionReports users reports k)),
      prasadam = sum_list (map countPrasadam (regionReports users reports k)),
      events = int (length (regionReports users reports k))\<rparr>"

text \<open>The order in which \<open>Object.keys\<close> lists keys that were created in the order given.\<close>

definition key_order :: "string list \<Rightarrow> string list" where
  "key_order ks = sort_key nat_of_digits (filter is_array_index ks)
                  @ filter (\<lambda>k. \<not> is_array_index k) ks"

section \<open>Category distribution: \<open>getPieChartData\<close>\<close>

record pie_entry =
  pie_name :: string
  pie_value :: int

text \<open>\<open>category.categoryName || category.name || 'Unknown Category'\<close>\<close>

definition categoryLabel :: "category \<Rightarrow> string" where
  "categoryLabel cat = str_or (categoryName cat) (str_or (name cat) ''Unknown Category'')"

text \<open>
  The values \<open>categoryData\<close> can hold: a number, \<open>NaN\<close>, or the text that \<open>+= 1\<close> makes of
  an inherited member (the source text of the function followed by \<open>1\<close>). The text is
  truthy, is not greater than \<open>0\<close>, and stays a text under \<open>+= 1\<close>.
\<close>

datatype count_val = Num int | NaN | Text

definition truthy_count :: "count_val \<Rightarrow> bool" where
  "truthy_count v = (case v of Num n \<Rightarrow> n \<noteq> 0 | NaN \<Rightarrow> False | Text \<Rightarrow> True)"

definition add_one :: "count_val \<Rightarrow> count_val" where
  "add_one v = (case v of Num n \<Rightarrow> Num (n + 1) | NaN \<Rightarrow> NaN | Text \<Rightarrow> Text)"

text \<open>
  \<open>if (!categoryData[n]) categoryData[n] = 0\<close>: a missing count and a count of \<open>0\<close> are
  falsy; an inherited member is truthy, so a name like a member of \<open>Object.prototype\<close> is
  not given a count.
\<close>

definition ensure_count :: "count_val jsobj \<Rightarrow> string \<Rightarrow> count_val jsobj" where
  "ensure_count categoryData n =
     (case obj_get categoryData n of
        Own v \<Rightarrow> (if truthy_count v then categoryData else obj_set categoryData n (Num 0))
      | Inherited m \<Rightarrow> categoryData
      | Absent \<Rightarrow> obj_set categoryData n (Num 0))"

text \<open>
  \<open>categoryData[n] += 1\<close>: an own count is increased; an inherited member plus \<open>1\<close> is a
  text, which is stored as a new own property, except under \<open>__proto__\<close>, whose setter
  ignores a value that is not an object; \<open>undefined + 1\<close> is \<open>NaN\<close>.
\<close>

definition increment :: "count_val jsobj \<Rightarrow> string \<Rightarrow> count_val jsobj" where
  "increment categoryData n =
     (case obj_get categoryData n of
        Own v \<Rightarrow> obj_set categoryData n (add_one v)
      | Inherited m \<Rightarrow>
          (if n = ''__proto__'' then categoryData else obj_set categoryData n Text)
      | Absent \<Rightarrow> obj_set categoryData n NaN)"

definition pie_init_step :: "category \<Rightarrow> count_val jsobj \<Rightarrow> count_val jsobj" where
  "pie_init_step cat categoryData = ensure_count categoryData (categoryLabel cat)"

text \<open>
  The category name of a report in the distribution. The chain starts from \<open>'Other'\<close> and
  takes the first truthy string of \<open>category.categoryName\<close>, \<open>category.name\<close>,
  \<open>report.categoryName\<close>.
\<close>

definition pieCategoryName :: "category \<Rightarrow> report \<Rightarrow> string" where
  "pieCategoryName cat r =
     (if truthy_str (categoryName cat) then str_or (categoryName cat) ''Other''
      else if truthy_str (name cat) then str_or (name cat) ''Other''
      else if truthy_str (report_categoryName r) then str_or (report_categoryName r) ''Other''
      else ''Other'')"

definition pie_count_step ::
  "category jsobj \<Rightarrow> report \<Rightarrow> count_val jsobj \<Rightarrow> count_val jsobj" where
  "pie_count_step categories r categoryData =
     (let n = pieCategoryName (lookupCategory categories r) r
      in increment (ensure_count categoryData n) n)"

definition categoryCounts :: "report list \<Rightarrow> category jsobj \<Rightarrow> count_val jsobj" where
  "categoryCounts reports categories =
     fold (pie_count_step categories) reports
       (fold pie_init_step (Object_values categories) [])"

text \<open>
  \<open>.filter(([name, value]) => value > 0).map(([name, value]) => ({ name, value }))\<close> in one
  pass: an entry passes the filter exactly when its value is a number above \<open>0\<close>, and is
  then turned into a slice with that number.
\<close>

definition positive_entry :: "string \<times> count_val \<Rightarrow> pie_entry option" where
  "positive_entry p =
     (case snd p of
        Num n \<Rightarrow> (if n > 0 then Some \<lparr>pie_name = fst p, pie_value = n\<rparr> else None)
      | NaN \<Rightarrow> None
      | Text \<Rightarrow> None)"

text \<open>
  The body of \<open>getPieChartData\<close> after the two fetches. \<open>Array.prototype.sort\<close> is stable;
  with the comparator \<open>b.value - a.value\<close> it orders by descending value.
\<close>

definition pieDistribution :: "report list \<Rightarrow> category jsobj \<Rightarrow> pie_entry list" where
  "pieDistribution reports categories =
     (let categoryData = categoryCounts reports categories;
          pieData =
            sort_key (\<lambda>e. - pie_value e)
              (List.map_filter positive_entry (Object_entries categoryData))
      in if length pieData = 0
         then map (\<lambda>cat. \<lparr>pie_name = categoryLabel cat, pie_value = 0\<rparr>)
                (Object_values categories)
         else pieData)"

definition fallbackPie :: "pie_entry list" where
  "fallbackPie =
     [\<lparr>pie_name = ''Book Distribution'', pie_value = 0\<rparr>,
      \<lparr>pie_name = ''Harinama Sankirtana'', pie_value = 0\<rparr>,
      \<lparr>pie_name = ''Food for Life'', pie_value = 0\<rparr>,
      \<lparr>pie_name = ''Temple Programs'', pie_value = 0\<rparr>,
      \<lparr>pie_name = ''University Programs'', pie_value = 0\<rparr>]"

text \<open>
  How many reports fall under a name in the distribution.
\<close>

definition reportsNamed :: "category jsobj \<Rightarrow> report list \<Rightarrow> string \<Rightarrow> nat" where
  "reportsNamed categories reports n =
     length (filter (\<lambda>r. pieCategoryName (lookupCategory categories r) r = n) reports)"

section \<open>The cache and the external store\<close>

text \<open>The module variable \<open>dataCache\<close>; \<open>None\<close> is \<open>null\<close>.\<close>

record data_cache =
  activityReports :: "report list option"
  preachingCategories :: "category jsobj option"
  users_coll :: "user jsobj option"
  lastFetch :: "int option"

definition CACHE_DURATION :: int where
  "CACHE_DURATION = 5 * 60 * 1000"

text \<open>
  \<open>dataCache.lastFetch && (Date.now() - dataCache.lastFetch) < CACHE_DURATION\<close>, with the
  clock reading passed in.
\<close>

definition isCacheValid :: "int \<Rightarrow> data_cache \<Rightarrow> bool" where
  "isCacheValid now c =
     (case lastFetch c of
        None \<Rightarrow> False
      | Some t \<Rightarrow> t \<noteq> 0 \<and> now - t < CACHE_DURATION)"

definition emptyCache :: data_cache where
  "emptyCache =
     \<lparr>activityReports = None, preachingCategories = None, users_coll = None,
      lastFetch = None\<rparr>"

text \<open>
  What the module does to the outside is kept in a trace: the collections it queries, the
  errors it logs, and the payloads it hands to the caller's callback.
\<close>

datatype 'p event = GetDocs string | ConsoleError string | Callback 'p

record 'p world =
  dataCache :: data_cache
  trace :: "'p event list"

definition emit :: "'p event \<Rightarrow> 'p world \<Rightarrow> 'p world" where
  "emit e w = w\<lparr>trace := trace w @ [e]\<rparr>"

text \<open>
  The external store at the time of a request: the documents of each collection (the
  reports in the order \<open>orderBy('createdAt', 'desc')\<close> delivers them) and, per collection,
  the error with which a request is rejected, if any. A query with \<open>limit(n)\<close> delivers
  the first \<open>n\<close> documents of that order.
\<close>

record store =
  activityReports_docs :: "(string \<times> report) list"
  preachingCategories_docs :: "(string \<times> category) list"
  users_docs :: "(string \<times> user) list"
  failing :: "string \<Rightarrow> js_error option"

definition getDocs_activityReports ::
  "store \<Rightarrow> nat option \<Rightarrow> (string \<times> report) list outcome" where
  "getDocs_activityReports st lmt =
     (case failing st ''activityReports'' of
        Some e \<Rightarrow> Thrown e
      | None \<Rightarrow>
          Returned (case lmt of
                      None \<Rightarrow> activityReports_docs st
                    | Some n \<Rightarrow> take n (activityReports_docs st)))"

definition getDocs_preachingCategories :: "store \<Rightarrow> (string \<times> category) list outcome" where
  "getDocs_preachingCategories st =
     (case failing st ''preachingCategories'' of
        Some e \<Rightarrow> Thrown e
      | None \<Rightarrow> Returned (preachingCategories_docs st))"

definition getDocs_users :: "store \<Rightarrow> (string \<times> user) list outcome" where
  "getDocs_users st =
     (case failing st ''users'' of
        Some e \<Rightarrow> Thrown e
      | None \<Rightarrow> Returned (users_docs st))"

section \<open>Collection fetchers\<close>

text \<open>\<open>{ id: doc.id, ...doc.data() }\<close>: an \<open>id\<close> field of the data wins over the document id.\<close>

definition reportOfDoc :: "string \<times> report \<Rightarrow> report" where
  "reportOfDoc d =
     (snd d)\<lparr>report_id := (case report_id (snd d) of
                             None \<Rightarrow> Some (fst d)
                           | Some i \<Rightarrow> Some i)\<rparr>"

text \<open>
  \<open>querySnapshot.forEach(doc => { obj[doc.id] = doc.data() })\<close> on an empty object. Each
  assignment creates or overwrites an own property; the store admits no document
  identifier of the form \<open>__.*__\<close>, so none is \<open>__proto__\<close>.
\<close>

definition objOfDocs :: "(string \<times> 'v) list \<Rightarrow> 'v jsobj" where
  "objOfDocs docs = fold (\<lambda>d obj. obj_set obj (fst d) (snd d)) docs []"

text \<open>
  Each fetcher is a \<open>try\<close> block, which may throw where \<open>getDocs\<close> rejects, and a \<open>catch\<close>
  block that logs and returns the empty result.
\<close>

definition fetchActivityReports_try ::
  "store \<Rightarrow> int \<Rightarrow> 'p world \<Rightarrow> report list outcome \<times> 'p world" where
  "fetchActivityReports_try st now w =
     (case (if isCacheValid now (dataCache w) then activityReports (dataCache w) else None) of
        Some cached \<Rightarrow> (Returned cached, w)
      | None \<Rightarrow>
          (let w1 = emit (GetDocs ''activityReports'') w
           in case getDocs_activityReports st None of
                Thrown e \<Rightarrow> (Thrown e, w1)
              | Returned docs \<Rightarrow>
                  (let reports = map reportOfDoc docs
                   in (Returned reports,
                       w1\<lparr>dataCache := (dataCache w1)\<lparr>activityReports := Some reports,
                                                      lastFetch := Some now\<rparr>\<rparr>))))"

definition fetchActivityReports ::
  "store \<Rightarrow> int \<Rightarrow> 'p world \<Rightarrow> report list outcome \<times> 'p world" where
  "fetchActivityReports st now w =
     (case fetchActivityReports_try st now w of
        (Returned reports, w1) \<Rightarrow> (Returned reports, w1)
      | (Thrown e, w1) \<Rightarrow>
          (Returned [], emit (ConsoleError ''Error fetching activity reports:'') w1))"

definition fetchPreachingCategories_try ::
  "store \<Rightarrow> int \<Rightarrow> 'p world \<Rightarrow> category jsobj outcome \<times> 'p world" where
  "fetchPreachingCategories_try st now w =
     (case (if isCacheValid now (dataCache w) then preachingCategories (dataCache w)
            else None) of
        Some cached \<Rightarrow> (Returned cached, w)
      | None \<Rightarrow>
          (let w1 = emit (GetDocs ''preachingCategories'') w
           in case getDocs_preachingCategories st of
                Thrown e \<Rightarrow> (Thrown e, w1)
              | Returned docs \<Rightarrow>
                  (let categories = objOfDocs docs
                   in (Returned categories,
                       w1\<lparr>dataCache :=
                            (dataCache w1)\<lparr>preachingCategories := Some categories\<rparr>\<rparr>))))"

definition fetchPreachingCategories ::
  "store \<Rightarrow> int \<Rightarrow> 'p world \<Rightarrow> category jsobj outcome \<times> 'p world" where
  "fetchPreachingCategories st now w =
     (case fetchPreachingCategories_try st now w of
        (Returned categories, w1) \<Rightarrow> (Returned categories, w1)
      | (Thrown e, w1) \<Rightarrow>
          (Returned [], emit (ConsoleError ''Error fetching preaching categories:'') w1))"

definition fetchUsers_try ::
  "store \<Rightarrow> int \<Rightarrow> 'p world \<Rightarrow> user jsobj outcome \<times> 'p world" where
  "fetchUsers_try st now w =
     (case (if isCacheValid now (dataCache w) then users_coll (dataCache w) else None) of
        Some cached \<Rightarrow> (Returned cached, w)
      | None \<Rightarrow>
          (let w1 = emit (GetDocs ''users'') w
           in case getDocs_users st of
                Thrown e \<Rightarrow> (Thrown e, w1)
              | Returned docs \<Rightarrow>
                  (let users = objOfDocs docs
                   in (Returned users,
                       w1\<lparr>dataCache := (dataCache w1)\<lparr>users_coll := Some users\<rparr>\<rparr>))))"

definition fetchUsers ::
  "store \<Rightarrow> int \<Rightarrow> 'p world \<Rightarrow> user jsobj outcome \<times> 'p world" where
  "fetchUsers st now w =
     (case fetchUsers_try st now w of
        (Returned users, w1) \<Rightarrow> (Returned users, w1)
      | (Thrown e, w1) \<Rightarrow> (Returned [], emit (ConsoleError ''Error fetching users:'') w1))"

definition clearCache :: "'p world \<Rightarrow> 'p world" where
  "clearCache w = w\<lparr>dataCache := emptyCache\<rparr>"

section \<open>The four derived views as exported\<close>

definition zeroImpact :: impact where
  "zeroImpact =
     \<lparr>totalReports = 0, totalBooksDistributed = 0, totalPrasadamServed = 0,
      livesTouched = 0, activePreachers = 0, citiesCovered = 0\<rparr>"

definition calculatePreachingImpact :: "store \<Rightarrow> int \<Rightarrow> 'p world \<Rightarrow> impact \<times> 'p world" where
  "calculatePreachingImpact st now w =
     (case fetchActivityReports st now w of
        (Thrown e, w1) \<Rightarrow>
          (zeroImpact, emit (ConsoleError ''Error calculating preaching impact:'') w1)
      | (Returned reports, w1) \<Rightarrow>
          (case fetchUsers st now w1 of
             (Thrown e, w2) \<Rightarrow>
               (zeroImpact, emit (ConsoleError ''Error calculating preaching impact:'') w2)
           | (Returned users, w2) \<Rightarrow> (impactTotals reports users, w2)))"

definition getRecentReports ::
  "int \<Rightarrow> store \<Rightarrow> int \<Rightarrow> 'p world \<Rightarrow> row list \<times> 'p world" where
  "getRecentReports limitCount st now w =
     (case fetchActivityReports st now w of
        (Thrown e, w1) \<Rightarrow> ([], emit (ConsoleError ''Error getting recent reports:'') w1)
      | (Returned reports, w1) \<Rightarrow>
          (case fetchPreachingCategories st now w1 of
             (Thrown e, w2) \<Rightarrow> ([], emit (ConsoleError ''Error getting recent reports:'') w2)
           | (Returned categories, w2) \<Rightarrow>
               (case fetchUsers st now w2 of
                  (Thrown e, w3) \<Rightarrow>
                    ([], emit (ConsoleError ''Error getting recent reports:'') w3)
                | (Returned users, w3) \<Rightarrow>
                    (recentRows limitCount reports categories users, w3))))"

definition getChartData :: "store \<Rightarrow> int \<Rightarrow> 'p world \<Rightarrow> chart \<times> 'p world" where
  "getChartData st now w =
     (case fetchActivityReports st now w of
        (Thrown e, w1) \<Rightarrow> (fallbackChart, emit (ConsoleError ''Error getting chart data:'') w1)
      | (Returned reports, w1) \<Rightarrow>
          (case fetchUsers st now w1 of
             (Thrown e, w2) \<Rightarrow>
               (fallbackChart, emit (ConsoleError ''Error getting chart data:'') w2)
           | (Returned users, w2) \<Rightarrow>
               (case chartSeries reports users of
                  Thrown e \<Rightarrow>
                    (fallbackChart, emit (ConsoleError ''Error getting chart data:'') w2)
                | Returned c \<Rightarrow> (c, w2))))"

definition getPieChartData :: "store \<Rightarrow> int \<Rightarrow> 'p world \<Rightarrow> pie_entry list \<times> 'p world" where
  "getPieChartData st now w =
     (case fetchActivityReports st now w of
        (Thrown e, w1) \<Rightarrow>
          (fallbackPie, emit (ConsoleError ''Error getting pie chart data:'') w1)
      | (Returned reports, w1) \<Rightarrow>
          (case fetchPreachingCategories st now w1 of
             (Thrown e, w2) \<Rightarrow>
               (fallbackPie, emit (ConsoleError ''Error getting pie chart data:'') w2)
           | (Returned categories, w2) \<Rightarrow> (pieDistribution reports categories, w2)))"

section \<open>Live listeners\<close>

text \<open>
  \<open>onSnapshot(query, next, error?)\<close> of the store's client library registers the two
  callbacks. The subscription then delivers events: a snapshot goes to \<open>next\<close>; an error
  of the subscription goes to \<open>error\<close> when one was passed, and is otherwise only written
  to the console by the library. The callbacks receive the surroundings of the moment the
  event arrives (the clock, or the store for a fallback fetch). When the registration
  itself throws, the listener function logs, returns \<open>null\<close> and no event is ever
  delivered; the definitions below are the registered subscriptions.
\<close>

datatype 'd snapshot_event = Next 'd | SubscriptionError js_error

definition onSnapshot ::
  "('e \<Rightarrow> 'd \<Rightarrow> 'p world \<Rightarrow> 'p world) \<Rightarrow> ('e \<Rightarrow> js_error \<Rightarrow> 'p world \<Rightarrow> 'p world) option
   \<Rightarrow> 'd snapshot_event \<Rightarrow> 'e \<Rightarrow> 'p world \<Rightarrow> 'p world" where
  "onSnapshot next err ev env w =
     (case ev of
        Next snap \<Rightarrow> next env snap w
      | SubscriptionError e \<Rightarrow>
          (case err of
             Some handler \<Rightarrow> handler env e w
           | None \<Rightarrow> emit (ConsoleError ''Uncaught Error in snapshot listener:'') w))"

text \<open>
  \<open>listenToActivityReports\<close> subscribes to
  \<open>query(reportsRef, orderBy('createdAt', 'desc'), limit(50))\<close> with a \<open>next\<close> callback only.
\<close>

definition listenToActivityReports_limit :: "nat option" where
  "listenToActivityReports_limit = Some 50"

definition listenToActivityReports_next ::
  "int \<Rightarrow> (string \<times> report) list \<Rightarrow> report list world \<Rightarrow> report list world" where
  "listenToActivityReports_next now docs w =
     (let reports = map reportOfDoc docs;
          w1 = w\<lparr>dataCache := (dataCache w)\<lparr>activityReports := Some reports,
                                             lastFetch := Some now\<rparr>\<rparr>
      in emit (Callback reports) w1)"

definition listenToActivityReports ::
  "(string \<times> report) list snapshot_event \<Rightarrow> int \<Rightarrow> report list world \<Rightarrow> report list world" where
  "listenToActivityReports ev now w = onSnapshot listenToActivityReports_next None ev now w"

text \<open>The event the store pushes to the reports listener for its query.\<close>

definition activityReports_push :: "store \<Rightarrow> (string \<times> report) list snapshot_event" where
  "activityReports_push st =
     (case getDocs_activityReports st listenToActivityReports_limit of
        Returned docs \<Rightarrow> Next docs
      | Thrown e \<Rightarrow> SubscriptionError e)"

subsection \<open>Resources\<close>

text \<open>
  The resources collection is not cached. Its store side is the list of active documents
  that match a category filter, and the error of a rejected request. Turning a snapshot
  into the resource list (identifier, upload date, formatted size, newest first) formats
  floating-point sizes and is passed in as \<open>normalise\<close>.
\<close>

record 'd resource_store =
  resource_docs :: "string option \<Rightarrow> 'd list"
  resources_failing :: "js_error option"

text \<open>\<open>if (category)\<close>: the category filter is applied for a non-empty category only.\<close>

definition resourceFilter :: "string option \<Rightarrow> string option" where
  "resourceFilter cat = (if truthy_str cat then cat else None)"

definition getDocs_resources :: "'d resource_store \<Rightarrow> string option \<Rightarrow> 'd list outcome" where
  "getDocs_resources rst flt =
     (case resources_failing rst of
        Some e \<Rightarrow> Thrown e
      | None \<Rightarrow> Returned (resource_docs rst flt))"

definition fetchResources_try ::
  "('d list \<Rightarrow> 'r list) \<Rightarrow> string option \<Rightarrow> 'd resource_store \<Rightarrow> 'r list world
   \<Rightarrow> 'r list outcome \<times> 'r list world" where
  "fetchResources_try normalise cat rst w =
     (let w1 = emit (GetDocs ''preachingResources'') w
      in case getDocs_resources rst (resourceFilter cat) of
           Thrown e \<Rightarrow> (Thrown e, w1)
         | Returned docs \<Rightarrow> (Returned (normalise docs), w1))"

definition fetchResources ::
  "('d list \<Rightarrow> 'r list) \<Rightarrow> string option \<Rightarrow> 'd resource_store \<Rightarrow> 'r list world
   \<Rightarrow> 'r list outcome \<times> 'r list world" where
  "fetchResources normalise cat rst w =
     (case fetchResources_try normalise cat rst w of
        (Returned resources, w1) \<Rightarrow> (Returned resources, w1)
      | (Thrown e, w1) \<Rightarrow> (Returned [], emit (ConsoleError ''Error fetching resources:'') w1))"

text \<open>
  The error callback of \<open>listenToResources\<close>:
  \<open>fetchResources(category).then(callback).catch(e => { ...; callback([]) })\<close>.
\<close>

definition listenToResources_error ::
  "('d list \<Rightarrow> 'r list) \<Rightarrow> string option \<Rightarrow> 'd resource_store \<Rightarrow> js_error \<Rightarrow> 'r list world
   \<Rightarrow> 'r list world" where
  "listenToResources_error normalise cat rst e w =
     (let w1 = emit (ConsoleError ''Real-time listener error for resources:'') w
      in case fetchResources normalise cat rst w1 of
           (Returned resources, w2) \<Rightarrow> emit (Callback resources) w2
         | (Thrown fetchError, w2) \<Rightarrow>
             emit (Callback []) (emit (ConsoleError ''Manual fallback fetch failed:'') w2))"

definition listenToResources_next ::
  "('d list \<Rightarrow> 'r list) \<Rightarrow> 'd resource_store \<Rightarrow> 'd list \<Rightarrow> 'r list world \<Rightarrow> 'r list world" where
  "listenToResources_next normalise rst docs w = emit (Callback (normalise docs)) w"

definition listenToResources ::
  "('d list \<Rightarrow> 'r list) \<Rightarrow> string option \<Rightarrow> 'd list snapshot_event \<Rightarrow> 'd resource_store
   \<Rightarrow> 'r list world \<Rightarrow> 'r list world" where
  "listenToResources normalise cat ev rst w =
     onSnapshot (listenToResources_next normalise)
       (Some (listenToResources_error normalise cat)) ev rst w"

text \<open>Counting events of a kind in what an operation added to the trace.\<close>

definition is_fetch :: "'p event \<Rightarrow> bool" where
  "is_fetch e = (case e of GetDocs c \<Rightarrow> True | ConsoleError m \<Rightarrow> False | Callback p \<Rightarrow> False)"

definition is_callback :: "'p event \<Rightarrow> bool" where
  "is_callback e = (case e of GetDocs c \<Rightarrow> False | ConsoleError m \<Rightarrow> False | Callback p \<Rightarrow> True)"

text \<open>
  The names under which the distribution counts: the labels of the known categories, the
  names the reports resolve to, and the keys of \<open>categoryData\<close> in enumeration order. A
  label named like a member of \<open>Object.prototype\<close> never becomes a key; a resolved name of
  that kind becomes a key holding a text, except \<open>__proto__\<close>.
\<close>

definition knownLabels :: "category jsobj \<Rightarrow> string list" where
  "knownLabels categories = map categoryLabel (Object_values categories)"

definition resolvedNames :: "category jsobj \<Rightarrow> report list \<Rightarrow> string list" where
  "resolvedNames categories reports =
     map (\<lambda>r. pieCategoryName (lookupCategory categories r) r) reports"

definition createdKeys :: "category jsobj \<Rightarrow> report list \<Rightarrow> string list" where
  "createdKeys categories reports =
     first_occurrences
       (filter (\<lambda>n. n \<notin> set Object_prototype_names) (knownLabels categories)
        @ filter (\<lambda>n. n \<noteq> ''__proto__'') (resolvedNames categories reports))"

definition pieKeys :: "category jsobj \<Rightarrow> report list \<Rightarrow> string list" where
  "pieKeys categories reports = key_order (createdKeys categories reports)"

definition countOf :: "category jsobj \<Rightarrow> report list \<Rightarrow> string \<Rightarrow> count_val" where
  "countOf categories reports k =
     (if k \<in> set Object_prototype_names then Text
      else Num (int (reportsNamed categories reports k)))"

text \<open>
  The cache-hit tests of the three fetchers: \<open>isCacheValid() && dataCache.x\<close>.
\<close>

definition reportsCached :: "int \<Rightarrow> 'p world \<Rightarrow> bool" where
  "reportsCached now w =
     (isCacheValid now (dataCache w) \<and> activityReports (dataCache w) \<noteq> None)"

definition categoriesCached :: "int \<Rightarrow> 'p world \<Rightarrow> bool" where
  "categoriesCached now w =
     (isCacheValid now (dataCache w) \<and> preachingCategories (dataCache w) \<noteq> None)"

definition usersCached :: "int \<Rightarrow> 'p world \<Rightarrow> bool" where
  "usersCached now w =
     (isCacheValid now (dataCache w) \<and> users_coll (dataCache w) \<noteq> None)"

section \<open>Example values\<close>

text \<open>A report, a contact and a cache with no field set, from which examples are built.\<close>

definition blankReport :: report where
  "blankReport =
     \<lparr>report_id = None, createdBy = None, createdAt = None, date = None, categoryId = None,
      report_categoryName = None, booksDistributed = None, contacts = None,
      newContacts = None, prasadamServed = None\<rparr>"

definition blankContact :: contact where
  "blankContact = \<lparr>isNewContact = None, isNew = None, contactType = None\<rparr>"

definition templeUser :: "string \<Rightarrow> user" where
  "templeUser t = empty_user\<lparr>temple := Some t\<rparr>"

definition reportBy :: "string \<Rightarrow> report" where
  "reportBy k = blankReport\<lparr>createdBy := Some k\<rparr>"

definition ghostReport :: report where
  "ghostReport =
     blankReport\<lparr>createdBy := Some ''ghost'', booksDistributed := Some (BookCount 4),
                  prasadamServed := Some 10\<rparr>"

definition freshWorld :: "'p world" where
  "freshWorld = \<lparr>dataCache = emptyCache, trace = []\<rparr>"

text \<open>
  Seven temples with one reporter each, where the last two temples report the most books;
  six temples of which the last is named \<open>7\<close>; two categories; and a category that has
  only a \<open>name\<close>, with a report that carries its own \<open>categoryName\<close>.
\<close>

definition bookReportBy :: "string \<Rightarrow> int \<Rightarrow> report" where
  "bookReportBy k n = blankReport\<lparr>createdBy := Some k, booksDistributed := Some (BookCount n)\<rparr>"

definition sevenUsers :: "user jsobj" where
  "sevenUsers =
     [(''u1'', templeUser ''Kuala Lumpur''), (''u2'', templeUser ''Penang''),
      (''u3'', templeUser ''Johor''), (''u4'', templeUser ''Ipoh''),
      (''u5'', templeUser ''Kuching''), (''u6'', templeUser ''Melaka''),
      (''u7'', templeUser ''Klang'')]"

definition sevenReports :: "report list" where
  "sevenReports =
     [bookReportBy ''u1'' 1, bookReportBy ''u2'' 2, bookReportBy ''u3'' 3, bookReportBy ''u4'' 4,
      bookReportBy ''u5'' 5, bookReportBy ''u6'' 50, bookReportBy ''u7'' 60, bookReportBy ''u1'' 10]"

definition numberedUsers :: "user jsobj" where
  "numberedUsers =
     [(''u1'', templeUser ''A''), (''u2'', templeUser ''B''), (''u3'', templeUser ''C''),
      (''u4'', templeUser ''D''), (''u5'', templeUser ''E''), (''u6'', templeUser ''7'')]"

definition numberedReports :: "report list" where
  "numberedReports =
     [reportBy ''u1'', reportBy ''u2'', reportBy ''u3'', reportBy ''u4'', reportBy ''u5'',
      reportBy ''u6'']"

definition categoriesAB :: "category jsobj" where
  "categoriesAB =
     [(''a'', \<lparr>categoryName = Some ''A'', name = None\<rparr>),
      (''b'', \<lparr>categoryName = Some ''B'', name = None\<rparr>)]"

definition namedOnly :: "category jsobj" where
  "namedOnly = [(''c1'', \<lparr>categoryName = None, name = Some ''A''\<rparr>)]"

definition relabelledReport :: report where
  "relabelledReport = blankReport\<lparr>categoryId := Some ''c1'', report_categoryName := Some ''B''\<rparr>"

text \<open>
  A category named \<open>constructor\<close> with one report, and a report whose \<open>categoryId\<close> is
  \<open>valueOf\<close>.
\<close>

definition constructorCategory :: "category jsobj" where
  "constructorCategory = [(''c1'', \<lparr>categoryName = Some ''constructor'', name = None\<rparr>)]"

definition constructorReport :: report where
  "constructorReport = blankReport\<lparr>categoryId := Some ''c1''\<rparr>"

definition valueOfReport :: report where
  "valueOfReport = blankReport\<lparr>categoryId := Some ''valueOf''\<rparr>"

text \<open>A directory in which one temple is named \<open>constructor\<close>, with three reports.\<close>

definition constructorUsers :: "user jsobj" where
  "constructorUsers = [(''u1'', templeUser ''Penang''), (''u2'', templeUser ''constructor'')]"

definition constructorTempleReports :: "report list" where
  "constructorTempleReports = [bookReportBy ''u1'' 1, bookReportBy ''u2'' 5, bookReportBy ''u2'' 7]"

text \<open>
  A store that rejects every request, a small store, and a store with 52 reports.
\<close>

definition brokenStore :: store where
  "brokenStore =
     \<lparr>activityReports_docs = [], preachingCategories_docs = [], users_docs = [],
      failing = (\<lambda>c. Some (StoreError ''unavailable''))\<rparr>"

definition smallStore :: store where
  "smallStore =
     \<lparr>activityReports_docs = [(''r1'', reportBy ''u1''), (''r2'', reportBy ''u2'')],
      preachingCategories_docs = categoriesAB,
      users_docs = [(''u1'', templeUser ''Penang''), (''u2'', templeUser ''Ipoh'')],
      failing = (\<lambda>c. None)\<rparr>"

definition bigStore :: store where
  "bigStore =
     \<lparr>activityReports_docs = replicate 52 (''r'', blankReport),
      preachingCategories_docs = [], users_docs = [],
      failing = (\<lambda>c. None)\<rparr>"

section \<open>Properties of the impact totals\<close>

lemma floor_1_5_real: "floor_1_5 n = \<lfloor>real n * 1.5\<rfloor>"
proof -
  have "real n * 1.5 = real (3 * n) / real 2" by simp
  then show ?thesis unfolding floor_1_5_def by (simp only: floor_divide_of_nat_eq)
qed

lemma fold_acc_books:
  "acc_books (fold (impact_step users) rs acc) = acc_books acc + sum_list (map countBooks rs)"
  by (induction rs arbitrary: acc) (simp_all add: impact_step_def Let_def split: lookup.splits)

lemma fold_acc_newContacts:
  "acc_newContacts (fold (impact_step users) rs acc) =
     acc_newContacts acc + sum_list (map countNewContacts rs)"
  by (induction rs arbitrary: acc) (simp_all add: impact_step_def Let_def split: lookup.splits)

lemma fold_acc_prasadam:
  "acc_prasadam (fold (impact_step users) rs acc) =
     acc_prasadam acc + sum_list (map countPrasadam rs)"
  by (induction rs arbitrary: acc) (simp_all add: impact_step_def Let_def split: lookup.splits)

lemma impact_step_temples:
  "templesWithReports (impact_step users r acc) =
     (case reportTemple users r of
        None \<Rightarrow> templesWithReports acc
      | Some t \<Rightarrow> set_add (templesWithReports acc) t)"
  by (simp add: impact_step_def reportTemple_def obj_get_def Let_def truthy_str_def
        prop_key_def str_or_def split: option.splits lookup.splits)

lemma fold_temples_set:
  "set (templesWithReports (fold (impact_step users) rs acc)) =
     set (templesWithReports acc) \<union> {t. \<exists>r \<in> set rs. reportTemple users r = Some t}"
  by (induction rs arbitrary: acc)
     (auto simp: impact_step_temples set_add_def split: option.splits)

lemma fold_temples_distinct:
  "distinct (templesWithReports acc) \<Longrightarrow>
   distinct (templesWithReports (fold (impact_step users) rs acc))"
  by (induction rs arbitrary: acc)
     (auto simp: impact_step_temples set_add_def split: option.splits)

lemma length_Object_entries: "length (Object_entries obj) = length obj"
  by (simp add: Object_entries_def sum_length_filter_compl)

lemma livesTouched_sum:
  "livesTouched (impactTotals reports users) = sum_list (map countNewContacts reports)"
  by (simp add: impactTotals_def Let_def fold_acc_newContacts)

lemma totalBooks_sum:
  "totalBooksDistributed (impactTotals reports users) = sum_list (map countBooks reports)"
  by (simp add: impactTotals_def Let_def fold_acc_books)

lemma totalPrasadam_sum:
  "totalPrasadamServed (impactTotals reports users) =
     (let s = sum_list (map countPrasadam reports)
      in if s = 0 then livesTouched (impactTotals reports users) * 2 else s)"
  by (simp add: impactTotals_def Let_def fold_acc_prasadam fold_acc_newContacts)

lemma totalReports_length: "totalReports (impactTotals reports users) = length reports"
  by (simp add: impactTotals_def Let_def)

lemma citiesCovered_card:
  "citiesCovered (impactTotals reports users) =
     card {t. \<exists>r \<in> set reports. reportTemple users r = Some t}"
proof -
  let ?acc0 = "\<lparr>acc_books = 0, acc_prasadam = 0, acc_newContacts = 0, templesWithReports = []\<rparr>"
  let ?ts = "templesWithReports (fold (impact_step users) reports ?acc0)"
  have d: "distinct ?ts" by (rule fold_temples_distinct) simp
  have s: "set ?ts = {t. \<exists>r \<in> set reports. reportTemple users r = Some t}"
    by (simp add: fold_temples_set)
  have "citiesCovered (impactTotals reports users) = length ?ts"
    by (simp add: impactTotals_def Let_def)
  also have "\<dots> = card (set ?ts)" using d by (simp add: distinct_card)
  finally show ?thesis using s by simp
qed

lemma reportTemple_Some_iff:
  "reportTemple users r = Some t \<longleftrightarrow>
     (\<exists>k u. createdBy r = Some k \<and> k \<noteq> [] \<and> map_of users k = Some u
            \<and> temple u = Some t \<and> t \<noteq> [])"
  by (auto simp: reportTemple_def split: option.splits if_splits)

text \<open>
  Claim C3. The new-contact count of a report: with a \<open>contacts\<close> array it is the number of
  entries with \<open>isNewContact === true\<close>, \<open>isNew === true\<close> or \<open>contactType === 'new'\<close>, and
  the full length of the array when that number is zero; without a \<open>contacts\<close> array it is
  \<open>newContacts\<close> when set and \<open>0\<close> otherwise. \<open>livesTouched\<close> is the sum of these counts.
\<close>

theorem new_contact_count:
  "countNewContacts r =
     (case contacts r of
        Some cs \<Rightarrow>
          (let marked = filter (\<lambda>c. isNewContact c = Some True \<or> isNew c = Some True
                                     \<or> contactType c = Some ''new'') cs
           in if length marked = 0 then int (length cs) else int (length marked))
      | None \<Rightarrow> (case newContacts r of Some n \<Rightarrow> n | None \<Rightarrow> 0))
   \<and> livesTouched (impactTotals reports users) = sum_list (map countNewContacts reports)"
proof -
  have p: "isNewContactEntry = (\<lambda>c. isNewContact c = Some True \<or> isNew c = Some True
                                     \<or> contactType c = Some ''new'')"
    by (auto simp: isNewContactEntry_def truthy_str_def fun_eq_iff)
  show ?thesis
    by (simp add: countNewContacts_def p Let_def livesTouched_sum split: option.splits)
qed

text \<open>
  The examples of the specification: \<open>[{isNew: true}, {isNew: false}]\<close> counts \<open>1\<close>,
  \<open>[{}, {}]\<close> counts \<open>2\<close>, and \<open>newContacts: 7\<close> without contacts counts \<open>7\<close>.
\<close>

theorem new_contact_count_witness:
  "countNewContacts
     (blankReport\<lparr>contacts := Some [blankContact\<lparr>isNew := Some True\<rparr>,
                                     blankContact\<lparr>isNew := Some False\<rparr>]\<rparr>) = 1
   \<and> countNewContacts (blankReport\<lparr>contacts := Some [blankContact, blankContact]\<rparr>) = 2
   \<and> countNewContacts (blankReport\<lparr>newContacts := Some 7\<rparr>) = 7
   \<and> livesTouched
       (impactTotals [blankReport\<lparr>contacts := Some [blankContact, blankContact]\<rparr>,
                      blankReport\<lparr>newContacts := Some 7\<rparr>] []) = 9"
  using new_contact_count
          [of "blankReport\<lparr>contacts := Some [blankContact\<lparr>isNew := Some True\<rparr>,
                                              blankContact\<lparr>isNew := Some False\<rparr>]\<rparr>"
              "[blankReport\<lparr>contacts := Some [blankContact, blankContact]\<rparr>,
                blankReport\<lparr>newContacts := Some 7\<rparr>]" "[]"]
        new_contact_count
          [of "blankReport\<lparr>contacts := Some [blankContact, blankContact]\<rparr>" "[]" "[]"]
        new_contact_count [of "blankReport\<lparr>newContacts := Some 7\<rparr>" "[]" "[]"]
  by (simp add: blankReport_def blankContact_def)

text \<open>
  Claim C1, as the code has it. The prasadam count of a report is \<open>prasadamServed\<close> when
  that field is present and not \<open>0\<close>; otherwise \<open>floor(contacts.length * 1.5)\<close> when
  \<open>contacts\<close> is present; otherwise \<open>0\<close>. \<open>totalPrasadamServed\<close> is the sum of these
  counts, replaced by \<open>livesTouched * 2\<close> when the sum is zero.
\<close>

theorem prasadam_total:
  "countPrasadam r =
     (case prasadamServed r of
        Some n \<Rightarrow>
          (if n \<noteq> 0 then n
           else (case contacts r of Some cs \<Rightarrow> \<lfloor>real (length cs) * 1.5\<rfloor> | None \<Rightarrow> 0))
      | None \<Rightarrow> (case contacts r of Some cs \<Rightarrow> \<lfloor>real (length cs) * 1.5\<rfloor> | None \<Rightarrow> 0))
   \<and> totalPrasadamServed (impactTotals reports users) =
       (let s = sum_list (map countPrasadam reports)
        in if s = 0 then livesTouched (impactTotals reports users) * 2 else s)"
  by (simp add: countPrasadam_def truthy_num_def num_or_zero_def floor_1_5_real
        impactTotals_def Let_def fold_acc_prasadam fold_acc_newContacts
        split: option.splits)

text \<open>
  A report with \<open>prasadamServed: 10\<close> and one with three unmarked contacts total \<open>14\<close>; a
  single report with \<open>newContacts: 6\<close> and no prasadam data falls back to \<open>12\<close>.
\<close>

theorem prasadam_total_witness:
  "totalPrasadamServed
     (impactTotals
        [blankReport\<lparr>prasadamServed := Some 10\<rparr>,
         blankReport\<lparr>contacts := Some [blankContact, blankContact, blankContact]\<rparr>] []) = 14
   \<and> totalPrasadamServed (impactTotals [blankReport\<lparr>newContacts := Some 6\<rparr>] []) = 12"
  using prasadam_total
          [of blankReport
              "[blankReport\<lparr>prasadamServed := Some 10\<rparr>,
                blankReport\<lparr>contacts := Some [blankContact, blankContact, blankContact]\<rparr>]"
              "[]"]
        prasadam_total [of blankReport "[blankReport\<lparr>newContacts := Some 6\<rparr>]" "[]"]
  by (simp add: blankReport_def blankContact_def countPrasadam_def truthy_num_def
        num_or_zero_def floor_1_5_def livesTouched_sum countNewContacts_def)

text \<open>
  Claim C1 as stated fails where \<open>prasadamServed\<close> is present and \<open>0\<close>: for the reports
  \<open>{prasadamServed: 10}\<close> and \<open>{prasadamServed: 0, contacts: [{}, {}]}\<close> the code returns
  \<open>13\<close>, the stated rule gives \<open>10\<close>.
\<close>

theorem prasadam_present_zero_counterexample:
  "totalPrasadamServed
     (impactTotals
        [blankReport\<lparr>prasadamServed := Some 10\<rparr>,
         blankReport\<lparr>prasadamServed := Some 0,
                      contacts := Some [blankContact, blankContact]\<rparr>] []) = 13
   \<and> totalPrasadamServed_spec
        [blankReport\<lparr>prasadamServed := Some 10\<rparr>,
         blankReport\<lparr>prasadamServed := Some 0,
                      contacts := Some [blankContact, blankContact]\<rparr>] [] = 10"
  by (simp add: totalPrasadamServed_spec_def normalizePrasadamCount_spec_def impactTotals_def
        impact_step_def countPrasadam_def countNewContacts_def countBooks_def truthy_num_def
        truthy_str_def num_or_zero_def floor_1_5_def blankReport_def blankContact_def Let_def
        isNewContactEntry_def)

text \<open>
  Claim C8. \<open>activePreachers\<close> is the number of entries of the user directory, whoever
  reported. \<open>citiesCovered\<close> is the number of distinct temples of directory users who
  authored a report. A report whose \<open>createdBy\<close> is not in the directory counts towards
  the number of reports, the books, the lives touched and the prasadam sum (with its
  fallback to twice the lives touched), and leaves \<open>citiesCovered\<close> as it is without that
  report.
\<close>

theorem preachers_and_cities:
  "activePreachers (impactTotals reports users) = length users
   \<and> citiesCovered (impactTotals reports users) =
       card {t. \<exists>r \<in> set reports. \<exists>k u. createdBy r = Some k \<and> k \<noteq> []
                  \<and> map_of users k = Some u \<and> temple u = Some t \<and> t \<noteq> []}
   \<and> ((\<forall>k. createdBy r = Some k \<longrightarrow> map_of users k = None) \<longrightarrow>
        citiesCovered (impactTotals (xs @ r # ys) users) =
          citiesCovered (impactTotals (xs @ ys) users)
        \<and> totalReports (impactTotals (xs @ r # ys) users) =
            totalReports (impactTotals (xs @ ys) users) + 1
        \<and> totalBooksDistributed (impactTotals (xs @ r # ys) users) =
            totalBooksDistributed (impactTotals (xs @ ys) users) + countBooks r
        \<and> livesTouched (impactTotals (xs @ r # ys) users) =
            livesTouched (impactTotals (xs @ ys) users) + countNewContacts r
        \<and> totalPrasadamServed (impactTotals (xs @ r # ys) users) =
            (let s = sum_list (map countPrasadam (xs @ ys)) + countPrasadam r
             in if s = 0
                then (livesTouched (impactTotals (xs @ ys) users) + countNewContacts r) * 2
                else s))"
proof -
  have a: "activePreachers (impactTotals reports users) = length users"
    by (simp add: impactTotals_def Let_def Object_keys_def length_Object_entries)
  have b: "citiesCovered (impactTotals reports users) =
       card {t. \<exists>r \<in> set reports. \<exists>k u. createdBy r = Some k \<and> k \<noteq> []
                  \<and> map_of users k = Some u \<and> temple u = Some t \<and> t \<noteq> []}"
    by (simp add: citiesCovered_card reportTemple_Some_iff)
  have c: "citiesCovered (impactTotals (xs @ r # ys) users) =
             citiesCovered (impactTotals (xs @ ys) users)"
    if h: "\<forall>k. createdBy r = Some k \<longrightarrow> map_of users k = None"
  proof -
    have "reportTemple users r = None"
      using h by (auto simp: reportTemple_def split: option.splits)
    then have "{t. \<exists>q \<in> set (xs @ r # ys). reportTemple users q = Some t}
             = {t. \<exists>q \<in> set (xs @ ys). reportTemple users q = Some t}"
      by auto
    then show ?thesis by (simp only: citiesCovered_card)
  qed
  have d: "totalPrasadamServed (impactTotals (xs @ r # ys) users) =
            (let s = sum_list (map countPrasadam (xs @ ys)) + countPrasadam r
             in if s = 0
                then (livesTouched (impactTotals (xs @ ys) users) + countNewContacts r) * 2
                else s)"
    by (simp add: totalPrasadam_sum livesTouched_sum Let_def)
  show ?thesis
    using a b c d by (simp add: totalReports_length totalBooks_sum livesTouched_sum)
qed

text \<open>
  Three registered users, of whom one reports twice, and one report by an author who is
  not registered, with 4 books and 10 prasadam: three active preachers, one city, three
  reports, 4 books, 10 prasadam.
\<close>

theorem preachers_and_cities_witness:
  "(createdBy ghostReport = Some ''ghost''
    \<and> map_of [(''u1'', templeUser ''Penang''), (''u2'', templeUser ''Ipoh''),
                (''u3'', templeUser ''Johor'')] ''ghost'' = None)
   \<and> activePreachers
       (impactTotals [reportBy ''u1'', ghostReport, reportBy ''u1'']
          [(''u1'', templeUser ''Penang''), (''u2'', templeUser ''Ipoh''),
           (''u3'', templeUser ''Johor'')]) = 3
   \<and> citiesCovered
       (impactTotals [reportBy ''u1'', ghostReport, reportBy ''u1'']
          [(''u1'', templeUser ''Penang''), (''u2'', templeUser ''Ipoh''),
           (''u3'', templeUser ''Johor'')]) = 1
   \<and> citiesCovered
       (impactTotals [reportBy ''u1'', reportBy ''u1'']
          [(''u1'', templeUser ''Penang''), (''u2'', templeUser ''Ipoh''),
           (''u3'', templeUser ''Johor'')]) = 1
   \<and> totalReports
       (impactTotals [reportBy ''u1'', ghostReport, reportBy ''u1'']
          [(''u1'', templeUser ''Penang''), (''u2'', templeUser ''Ipoh''),
           (''u3'', templeUser ''Johor'')]) = 3
   \<and> totalBooksDistributed
       (impactTotals [reportBy ''u1'', ghostReport, reportBy ''u1'']
          [(''u1'', templeUser ''Penang''), (''u2'', templeUser ''Ipoh''),
           (''u3'', templeUser ''Johor'')]) = 4
   \<and> totalPrasadamServed
       (impactTotals [reportBy ''u1'', ghostReport, reportBy ''u1'']
          [(''u1'', templeUser ''Penang''), (''u2'', templeUser ''Ipoh''),
           (''u3'', templeUser ''Johor'')]) = 10"
  using preachers_and_cities
     [of "[reportBy ''u1'', ghostReport, reportBy ''u1'']"
         "[(''u1'', templeUser ''Penang''), (''u2'', templeUser ''Ipoh''),
           (''u3'', templeUser ''Johor'')]"
         ghostReport "[reportBy ''u1'']" "[reportBy ''u1'']"]
  by (simp add: ghostReport_def reportBy_def blankReport_def templeUser_def empty_user_def
       obj_get_def Object_prototype_names_def impactTotals_def impact_step_def Let_def
       truthy_str_def truthy_num_def num_or_zero_def prop_key_def str_or_def set_add_def
       countBooks_def countPrasadam_def countNewContacts_def)

section \<open>Objects in canonical form\<close>

text \<open>
  The objects the loops build have the form \<open>map (\<lambda>k. (k, g k)) K\<close>: the keys \<open>K\<close> in creation
  order, each with a value that is a function of the key.
\<close>

lemma first_occurrences_set [simp]: "set (first_occurrences xs) = set xs"
  by (induction xs) auto

lemma first_occurrences_distinct [simp]: "distinct (first_occurrences xs)"
  by (induction xs) auto

lemma first_occurrences_snoc:
  "first_occurrences (xs @ [x]) =
     (if x \<in> set xs then first_occurrences xs else first_occurrences xs @ [x])"
  by (induction xs) auto

lemma map_of_canon:
  "map_of (map (\<lambda>k. (k, g k)) K) n = (if n \<in> set K then Some (g n) else None)"
  by (induction K) auto

lemma obj_get_canon:
  "obj_get (map (\<lambda>k. (k, g k)) K) n =
     (if n \<in> set K then Own (g n)
      else if n \<in> set Object_prototype_names then Inherited n else Absent)"
  by (simp add: obj_get_def map_of_canon)

lemma obj_set_canon_new:
  "n \<notin> set K \<Longrightarrow> obj_set (map (\<lambda>k. (k, g k)) K) n v = map (\<lambda>k. (k, g k)) K @ [(n, v)]"
  by (induction K) auto

lemma obj_set_canon_old:
  "distinct K \<Longrightarrow> n \<in> set K \<Longrightarrow>
   obj_set (map (\<lambda>k. (k, g k)) K) n v = map (\<lambda>k. (k, if k = n then v else g k)) K"
  by (induction K) auto

lemma obj_modify_canon:
  "obj_modify (map (\<lambda>k. (k, g k)) K) n f = map (\<lambda>k. (k, if k = n then f (g k) else g k)) K"
  by (simp add: obj_modify_def)

lemma insort_key_canon:
  "insort_key (\<lambda>p. f (fst p)) (x, g x) (map (\<lambda>k. (k, g k)) xs) =
     map (\<lambda>k. (k, g k)) (insort_key f x xs)"
  by (induction xs) auto

lemma sort_key_canon:
  "sort_key (\<lambda>p. f (fst p)) (map (\<lambda>k. (k, g k)) xs) = map (\<lambda>k. (k, g k)) (sort_key f xs)"
  by (induction xs) (auto simp: insort_key_canon)

lemma Object_entries_canon:
  "Object_entries (map (\<lambda>k. (k, g k)) K) = map (\<lambda>k. (k, g k)) (key_order K)"
  by (simp add: Object_entries_def key_order_def filter_map comp_def sort_key_canon)

lemma key_order_set [simp]: "set (key_order K) = set K"
  by (auto simp: key_order_def)

lemma key_order_distinct: "distinct K \<Longrightarrow> distinct (key_order K)"
  by (auto simp: key_order_def)

lemma key_order_plain:
  "\<forall>k \<in> set K. \<not> is_array_index k \<Longrightarrow> key_order K = K"
  by (simp add: key_order_def filter_empty_conv[THEN iffD2] filter_id_conv[THEN iffD2])

section \<open>Properties of the regional series\<close>

text \<open>
  The groups that the loop creates are those of the regions that are not named like a
  member of \<open>Object.prototype\<close>; each holds the totals of its reports.
\<close>

lemma regionReports_snoc:
  "regionReports users (rs @ [r]) k =
     (if reportRegion users r = k then regionReports users rs k @ [r] else regionReports users rs k)"
  by (simp add: regionReports_def)

lemma regionReports_Nil_if_unseen:
  "k \<notin> reportRegion users ` set rs \<Longrightarrow> regionReports users rs k = []"
  by (auto simp: regionReports_def filter_empty_conv)

lemma add_report_totals:
  "reportRegion users r = k \<Longrightarrow>
   add_report r (regionTotals users rs k) = regionTotals users (rs @ [r]) k"
  by (simp add: add_report_def regionTotals_def regionReports_snoc Let_def)

lemma regionTotals_other:
  "reportRegion users r \<noteq> k \<Longrightarrow> regionTotals users (rs @ [r]) k = regionTotals users rs k"
  by (simp add: regionTotals_def regionReports_snoc)

lemma canon_cong:
  "\<forall>k \<in> set K. g k = g' k \<Longrightarrow> map (\<lambda>k. (k, g k)) K = map (\<lambda>k. (k, g' k)) K"
  by simp

lemma obj_modify_canon_other:
  "n \<notin> set K \<Longrightarrow> obj_modify (map (\<lambda>k. (k, g k)) K) n f = map (\<lambda>k. (k, g k)) K"
  by (induction K) (auto simp: obj_modify_def)

lemma chart_step_canon:
  "chart_step users r (map (\<lambda>k. (k, g k)) K) =
     (if reportRegion users r \<in> set K
      then map (\<lambda>k. (k, if k = reportRegion users r then add_report r (g k) else g k)) K
      else if reportRegion users r \<in> set Object_prototype_names
      then map (\<lambda>k. (k, g k)) K
      else map (\<lambda>k. (k, g k)) K
           @ [(reportRegion users r, add_report r \<lparr>books = 0, prasadam = 0, events = 0\<rparr>)])"
proof -
  have app: "\<And>n z f. n \<notin> set K \<Longrightarrow>
          obj_modify (map (\<lambda>k. (k, g k)) K @ [(n, z)]) n f = map (\<lambda>k. (k, g k)) K @ [(n, f z)]"
    using obj_modify_canon_other[of _ K g] by (simp add: obj_modify_def)
  show ?thesis
    by (simp add: chart_step_def Let_def obj_get_canon obj_modify_canon obj_set_canon_new app)
qed

lemma chart_fold_canon:
  "fold (chart_step users) rs [] =
     map (\<lambda>k. (k, regionTotals users rs k))
       (first_occurrences
          (filter (\<lambda>k. k \<notin> set Object_prototype_names) (map (reportRegion users) rs)))"
proof (induction rs rule: rev_induct)
  case Nil
  show ?case by simp
next
  case (snoc r rs)
  define K where
    "K = first_occurrences
           (filter (\<lambda>k. k \<notin> set Object_prototype_names) (map (reportRegion users) rs))"
  define t where "t = reportRegion users r"
  let ?g = "regionTotals users rs"
  let ?g' = "regionTotals users (rs @ [r])"
  have setK: "set K = {k \<in> reportRegion users ` set rs. k \<notin> set Object_prototype_names}"
    by (auto simp: K_def)
  have K': "first_occurrences
              (filter (\<lambda>k. k \<notin> set Object_prototype_names)
                 (map (reportRegion users) (rs @ [r]))) =
            (if t \<in> set Object_prototype_names \<or> t \<in> set K then K else K @ [t])"
    by (auto simp: K_def t_def first_occurrences_snoc)
  have fold_eq: "fold (chart_step users) (rs @ [r]) [] =
                   chart_step users r (map (\<lambda>k. (k, ?g k)) K)"
    using snoc by (simp add: K_def)
  have same: "?g' t = add_report r (?g t)"
    by (simp add: t_def add_report_totals)
  have other: "\<And>k. k \<noteq> t \<Longrightarrow> ?g' k = ?g k"
    by (simp add: t_def regionTotals_other)
  have zero: "t \<notin> set K \<Longrightarrow> t \<notin> set Object_prototype_names \<Longrightarrow>
              ?g t = \<lparr>books = 0, prasadam = 0, events = 0\<rparr>"
  proof -
    assume "t \<notin> set K" "t \<notin> set Object_prototype_names"
    then have "t \<notin> reportRegion users ` set rs" by (simp add: setK)
    then show ?thesis
      by (simp add: regionTotals_def regionReports_Nil_if_unseen)
  qed
  consider (seen) "t \<in> set K" | (inh) "t \<notin> set K" "t \<in> set Object_prototype_names"
    | (new) "t \<notin> set K" "t \<notin> set Object_prototype_names"
    by blast
  then have "chart_step users r (map (\<lambda>k. (k, ?g k)) K) =
          map (\<lambda>k. (k, ?g' k)) (if t \<in> set Object_prototype_names \<or> t \<in> set K then K else K @ [t])"
  proof cases
    case seen
    have "\<forall>k \<in> set K. (if k = t then add_report r (?g k) else ?g k) = ?g' k"
      using same other by simp
    then have "map (\<lambda>k. (k, if k = t then add_report r (?g k) else ?g k)) K
             = map (\<lambda>k. (k, ?g' k)) K"
      by (rule canon_cong)
    then show ?thesis using seen by (simp add: chart_step_canon t_def[symmetric])
  next
    case inh
    have "\<forall>k \<in> set K. ?g k = ?g' k" using inh other by metis
    then have "map (\<lambda>k. (k, ?g k)) K = map (\<lambda>k. (k, ?g' k)) K" by (rule canon_cong)
    then show ?thesis using inh by (simp add: chart_step_canon t_def[symmetric])
  next
    case new
    have "\<forall>k \<in> set K. ?g k = ?g' k" using new other by metis
    then have c: "map (\<lambda>k. (k, ?g k)) K = map (\<lambda>k. (k, ?g' k)) K" by (rule canon_cong)
    have n: "add_report r \<lparr>books = 0, prasadam = 0, events = 0\<rparr> = ?g' t"
      using same zero[OF new] by simp
    show ?thesis using new by (simp add: chart_step_canon t_def[symmetric] c n)
  qed
  then show ?case unfolding fold_eq K' .
qed

lemma chartSeries_eq:
  "chartSeries reports users =
     (let ks = take 5 (key_order (first_occurrences
                 (filter (\<lambda>k. k \<notin> set Object_prototype_names)
                    (map (reportRegion users) reports))))
      in Returned \<lparr>regions = ks,
                   booksData = map (\<lambda>k. books (regionTotals users reports k)) ks,
                   prasadamData = map (\<lambda>k. prasadam (regionTotals users reports k)) ks,
                   eventsData = map (\<lambda>k. events (regionTotals users reports k)) ks\<rparr>)"
  by (simp add: chartSeries_def chart_fold_canon Object_entries_canon Let_def take_map comp_def)

lemma chartSeries_Returned: "\<exists>c. chartSeries reports users = Returned c"
  by (simp add: chartSeries_def Let_def)

section \<open>Properties of the category distribution\<close>

text \<open>
  The keys of \<open>categoryData\<close> are \<open>createdKeys\<close>, and the value under a key is \<open>countOf\<close>: the
  number of reports of that name, or a text for a name like a member of
  \<open>Object.prototype\<close>.
\<close>

lemma obj_set_canon_same:
  "n \<in> set K \<Longrightarrow> obj_set (map (\<lambda>k. (k, g k)) K) n (g n) = map (\<lambda>k. (k, g k)) K"
  by (induction K) auto

lemma obj_set_append_new:
  "n \<notin> fst ` set xs \<Longrightarrow> obj_set (xs @ [(n, v)]) n v' = xs @ [(n, v')]"
  by (induction xs) auto

lemma obj_get_append_new:
  "n \<notin> fst ` set xs \<Longrightarrow> obj_get (xs @ [(n, v)]) n = Own v"
  by (induction xs) (auto simp: obj_get_def)

lemma ensure_count_canon:
  assumes "g n \<noteq> NaN"
  shows "ensure_count (map (\<lambda>k. (k, g k)) K) n =
           (if n \<in> set K \<or> n \<in> set Object_prototype_names then map (\<lambda>k. (k, g k)) K
            else map (\<lambda>k. (k, g k)) K @ [(n, Num 0)])"
proof (cases "n \<in> set K")
  case False
  then show ?thesis
    by (simp add: ensure_count_def obj_get_canon obj_set_canon_new)
next
  case True
  show ?thesis
  proof (cases "truthy_count (g n)")
    case t: True
    then show ?thesis using True by (simp add: ensure_count_def obj_get_canon)
  next
    case f: False
    with assms have z: "g n = Num 0"
      by (cases "g n") (simp_all add: truthy_count_def)
    have "obj_set (map (\<lambda>k. (k, g k)) K) n (g n) = map (\<lambda>k. (k, g k)) K"
      using True by (rule obj_set_canon_same)
    then show ?thesis using True f z by (simp add: ensure_count_def obj_get_canon)
  qed
qed

lemma increment_canon:
  assumes "distinct K"
  shows "increment (map (\<lambda>k. (k, g k)) K) n =
           (if n \<in> set K then map (\<lambda>k. (k, if k = n then add_one (g k) else g k)) K
            else if n \<in> set Object_prototype_names
            then (if n = ''__proto__'' then map (\<lambda>k. (k, g k)) K
                  else map (\<lambda>k. (k, g k)) K @ [(n, Text)])
            else map (\<lambda>k. (k, g k)) K @ [(n, NaN)])"
  using assms
  by (simp add: increment_def obj_get_canon obj_set_canon_old obj_set_canon_new)

lemma increment_appended:
  "n \<notin> set K \<Longrightarrow>
   increment (map (\<lambda>k. (k, g k)) K @ [(n, v)]) n = map (\<lambda>k. (k, g k)) K @ [(n, add_one v)]"
proof -
  assume "n \<notin> set K"
  then have nk: "n \<notin> fst ` set (map (\<lambda>k. (k, g k)) K)" by (auto simp: image_iff)
  show ?thesis
    by (simp only: increment_def obj_get_append_new[OF nk] lookup.case obj_set_append_new[OF nk])
qed

lemma pie_count_step_canon:
  assumes "distinct K" and "g (pieCategoryName (lookupCategory categories r) r) \<noteq> NaN"
  shows "pie_count_step categories r (map (\<lambda>k. (k, g k)) K) =
           (let n = pieCategoryName (lookupCategory categories r) r
            in if n \<in> set K then map (\<lambda>k. (k, if k = n then add_one (g k) else g k)) K
               else if n \<in> set Object_prototype_names
               then (if n = ''__proto__'' then map (\<lambda>k. (k, g k)) K
                     else map (\<lambda>k. (k, g k)) K @ [(n, Text)])
               else map (\<lambda>k. (k, g k)) K @ [(n, Num 1)])"
  using assms
  by (simp add: pie_count_step_def Let_def ensure_count_canon increment_canon
        increment_appended add_one_def)

lemma pie_init_canon:
  "fold pie_init_step cs [] =
     map (\<lambda>k. (k, Num 0))
       (first_occurrences
          (filter (\<lambda>n. n \<notin> set Object_prototype_names) (map categoryLabel cs)))"
proof (induction cs rule: rev_induct)
  case Nil
  show ?case by simp
next
  case (snoc c cs)
  then show ?case
    by (simp add: pie_init_step_def ensure_count_canon first_occurrences_snoc)
qed

lemma reportsNamed_snoc:
  "reportsNamed categories (rs @ [r]) n =
     reportsNamed categories rs n
       + (if pieCategoryName (lookupCategory categories r) r = n then 1 else 0)"
  by (simp add: reportsNamed_def)

lemma reportsNamed_unseen:
  "n \<notin> set (resolvedNames categories rs) \<Longrightarrow> reportsNamed categories rs n = 0"
  by (auto simp: reportsNamed_def resolvedNames_def filter_empty_conv)

lemma reportsNamed_pos_iff:
  "0 < reportsNamed categories rs n \<longleftrightarrow> n \<in> set (resolvedNames categories rs)"
  by (auto simp: reportsNamed_def resolvedNames_def filter_empty_conv)

lemma proto_name_in_list: "''__proto__'' \<in> set Object_prototype_names"
  by (simp add: Object_prototype_names_def)

lemma createdKeys_set:
  "set (createdKeys categories reports) =
     {n \<in> set (knownLabels categories). n \<notin> set Object_prototype_names}
     \<union> {n \<in> set (resolvedNames categories reports). n \<noteq> ''__proto__''}"
  by (auto simp: createdKeys_def)

lemma createdKeys_distinct: "distinct (createdKeys categories reports)"
  by (simp add: createdKeys_def)

lemma createdKeys_snoc:
  "createdKeys categories (rs @ [r]) =
     (let n = pieCategoryName (lookupCategory categories r) r
      in if n = ''__proto__'' \<or> n \<in> set (createdKeys categories rs)
         then createdKeys categories rs
         else createdKeys categories rs @ [n])"
proof -
  let ?L = "filter (\<lambda>n. n \<notin> set Object_prototype_names) (knownLabels categories)"
  let ?N = "filter (\<lambda>n. n \<noteq> ''__proto__'') (resolvedNames categories rs)"
  let ?n = "pieCategoryName (lookupCategory categories r) r"
  show ?thesis
  proof (cases "?n = ''__proto__''")
    case True
    then show ?thesis by (simp add: createdKeys_def resolvedNames_def Let_def)
  next
    case False
    then have "filter (\<lambda>n. n \<noteq> ''__proto__'') (resolvedNames categories (rs @ [r])) = ?N @ [?n]"
      by (simp add: resolvedNames_def)
    then have "createdKeys categories (rs @ [r]) = first_occurrences ((?L @ ?N) @ [?n])"
      by (simp add: createdKeys_def)
    also have "\<dots> = (if ?n \<in> set (?L @ ?N) then first_occurrences (?L @ ?N)
                      else first_occurrences (?L @ ?N) @ [?n])"
      by (rule first_occurrences_snoc)
    finally show ?thesis using False
      by (simp add: createdKeys_def Let_def)
  qed
qed

lemma categoryCounts_canon:
  "categoryCounts reports categories =
     map (\<lambda>k. (k, countOf categories reports k)) (createdKeys categories reports)"
proof (induction reports rule: rev_induct)
  case Nil
  have "\<forall>k \<in> set (createdKeys categories []). Num 0 = countOf categories [] k"
    by (auto simp: createdKeys_set resolvedNames_def countOf_def reportsNamed_def)
  then have "map (\<lambda>k. (k, Num 0)) (createdKeys categories [])
           = map (\<lambda>k. (k, countOf categories [] k)) (createdKeys categories [])"
    by (rule canon_cong)
  then show ?case
    by (simp add: categoryCounts_def pie_init_canon createdKeys_def knownLabels_def
          resolvedNames_def)
next
  case (snoc r rs)
  define K where "K = createdKeys categories rs"
  define n where "n = pieCategoryName (lookupCategory categories r) r"
  let ?g = "countOf categories rs"
  let ?g' = "countOf categories (rs @ [r])"
  have dK: "distinct K" by (simp add: K_def createdKeys_distinct)
  have notNaN: "?g n \<noteq> NaN" by (simp add: countOf_def)
  have cc: "categoryCounts (rs @ [r]) categories
          = pie_count_step categories r (map (\<lambda>k. (k, ?g k)) K)"
    using snoc by (simp add: categoryCounts_def K_def)
  have K': "createdKeys categories (rs @ [r]) =
              (if n = ''__proto__'' \<or> n \<in> set K then K else K @ [n])"
    by (simp add: createdKeys_snoc Let_def K_def n_def)
  have same: "?g' n = add_one (?g n)"
    by (simp add: countOf_def reportsNamed_snoc add_one_def n_def)
  have other: "\<And>k. k \<noteq> n \<Longrightarrow> ?g' k = ?g k"
    by (simp add: countOf_def reportsNamed_snoc n_def)
  have fresh: "n \<notin> set K \<Longrightarrow> n \<notin> set Object_prototype_names \<Longrightarrow> ?g' n = Num 1"
  proof -
    assume a: "n \<notin> set K" "n \<notin> set Object_prototype_names"
    then have "n \<noteq> ''__proto__''" using proto_name_in_list by auto
    with a have "n \<notin> set (resolvedNames categories rs)"
      by (simp add: K_def createdKeys_set)
    then have "reportsNamed categories rs n = 0" by (rule reportsNamed_unseen)
    then show ?thesis using a by (simp add: countOf_def reportsNamed_snoc n_def)
  qed
  have inhv: "n \<in> set Object_prototype_names \<Longrightarrow> ?g' n = Text"
    by (simp add: countOf_def)
  consider (seen) "n \<in> set K"
    | (proto) "n \<notin> set K" "n = ''__proto__''"
    | (inh) "n \<notin> set K" "n \<noteq> ''__proto__''" "n \<in> set Object_prototype_names"
    | (new) "n \<notin> set K" "n \<notin> set Object_prototype_names"
    using proto_name_in_list by blast
  then have "pie_count_step categories r (map (\<lambda>k. (k, ?g k)) K) =
               map (\<lambda>k. (k, ?g' k)) (if n = ''__proto__'' \<or> n \<in> set K then K else K @ [n])"
  proof cases
    case seen
    have "\<forall>k \<in> set K. (if k = n then add_one (?g k) else ?g k) = ?g' k"
      using same other by simp
    then have "map (\<lambda>k. (k, if k = n then add_one (?g k) else ?g k)) K
             = map (\<lambda>k. (k, ?g' k)) K"
      by (rule canon_cong)
    then show ?thesis using seen notNaN
      by (simp add: pie_count_step_canon[OF dK] Let_def n_def[symmetric])
  next
    case proto
    have "\<forall>k \<in> set K. ?g k = ?g' k" using proto other by metis
    then have "map (\<lambda>k. (k, ?g k)) K = map (\<lambda>k. (k, ?g' k)) K" by (rule canon_cong)
    then show ?thesis using proto notNaN proto_name_in_list
      by (simp add: pie_count_step_canon[OF dK] Let_def n_def[symmetric])
  next
    case inh
    have "\<forall>k \<in> set K. ?g k = ?g' k" using inh other by metis
    then have c: "map (\<lambda>k. (k, ?g k)) K = map (\<lambda>k. (k, ?g' k)) K" by (rule canon_cong)
    show ?thesis using inh notNaN inhv
      by (simp add: pie_count_step_canon[OF dK] Let_def n_def[symmetric] c)
  next
    case new
    then have ne: "n \<noteq> ''__proto__''" using proto_name_in_list by auto
    have "\<forall>k \<in> set K. ?g k = ?g' k" using new other by metis
    then have c: "map (\<lambda>k. (k, ?g k)) K = map (\<lambda>k. (k, ?g' k)) K" by (rule canon_cong)
    show ?thesis using new ne notNaN fresh
      by (simp add: pie_count_step_canon[OF dK] Let_def n_def[symmetric] c)
  qed
  then show ?case unfolding cc K' .
qed

lemma positive_entries_canon:
  "List.map_filter positive_entry (map (\<lambda>k. (k, countOf categories reports k)) ks) =
     map (\<lambda>k. \<lparr>pie_name = k, pie_value = int (reportsNamed categories reports k)\<rparr>)
       (filter (\<lambda>k. k \<notin> set Object_prototype_names \<and> 0 < reportsNamed categories reports k) ks)"
  by (induction ks) (auto simp: List.map_filter_simps positive_entry_def countOf_def)

lemma pieDistribution_eq:
  "pieDistribution reports categories =
     (let pieData =
            sort_key (\<lambda>e. - pie_value e)
              (map (\<lambda>k. \<lparr>pie_name = k, pie_value = int (reportsNamed categories reports k)\<rparr>)
                 (filter (\<lambda>k. k \<notin> set Object_prototype_names
                                \<and> 0 < reportsNamed categories reports k)
                    (pieKeys categories reports)))
      in if pieData = []
         then map (\<lambda>cat. \<lparr>pie_name = categoryLabel cat, pie_value = 0\<rparr>) (Object_values categories)
         else pieData)"
  by (simp add: pieDistribution_def categoryCounts_canon Object_entries_canon pieKeys_def
        Let_def positive_entries_canon)

lemma pieKeys_set: "set (pieKeys categories reports) = set (createdKeys categories reports)"
  by (simp add: pieKeys_def)

lemma pieKeys_distinct: "distinct (pieKeys categories reports)"
  by (simp add: pieKeys_def key_order_distinct createdKeys_distinct)

lemma sort_key_Nil_iff: "sort_key f xs = [] \<longleftrightarrow> xs = []"
  by (metis length_sort length_0_conv)

lemma counted_in_keys:
  "k \<notin> set Object_prototype_names \<Longrightarrow> 0 < reportsNamed categories reports k \<Longrightarrow>
   k \<in> set (pieKeys categories reports)"
  using proto_name_in_list
  by (auto simp: pieKeys_set createdKeys_set reportsNamed_pos_iff)

lemma pieDistribution_empty:
  "pieDistribution [] categories =
     map (\<lambda>cat. \<lparr>pie_name = categoryLabel cat, pie_value = 0\<rparr>) (Object_values categories)"
  by (simp add: pieDistribution_eq reportsNamed_def)

lemma pieDistribution_nonempty:
  assumes "r \<in> set reports"
    and "pieCategoryName (lookupCategory categories r) r \<notin> set Object_prototype_names"
  shows "pieDistribution reports categories =
           sort_key (\<lambda>e. - pie_value e)
              (map (\<lambda>k. \<lparr>pie_name = k, pie_value = int (reportsNamed categories reports k)\<rparr>)
                 (filter (\<lambda>k. k \<notin> set Object_prototype_names
                                \<and> 0 < reportsNamed categories reports k)
                    (pieKeys categories reports)))"
proof -
  let ?n = "pieCategoryName (lookupCategory categories r) r"
  have "?n \<in> set (resolvedNames categories reports)"
    using assms(1) by (auto simp: resolvedNames_def)
  then have pos: "0 < reportsNamed categories reports ?n" by (simp add: reportsNamed_pos_iff)
  then have "?n \<in> set (pieKeys categories reports)" using assms(2) by (simp add: counted_in_keys)
  with pos assms(2)
  have "filter (\<lambda>k. k \<notin> set Object_prototype_names \<and> 0 < reportsNamed categories reports k)
          (pieKeys categories reports) \<noteq> []"
    by (auto simp: filter_empty_conv)
  then show ?thesis
    by (simp add: pieDistribution_eq Let_def sort_key_Nil_iff)
qed

lemma distinct_map_insort_key:
  "distinct (map h (insort_key f x xs)) \<longleftrightarrow> h x \<notin> h ` set xs \<and> distinct (map h xs)"
  by (induction xs) (auto simp: set_insort_key)

lemma distinct_map_sort_key: "distinct (map h (sort_key f xs)) \<longleftrightarrow> distinct (map h xs)"
  by (induction xs) (auto simp: distinct_map_insort_key)

lemma filter_eq_single: "distinct xs \<Longrightarrow> n \<in> set xs \<Longrightarrow> filter (\<lambda>k. k = n) xs = [n]"
  by (induction xs) (auto simp: filter_empty_conv)

lemma pieDistribution_single:
  assumes "pieCategoryName (lookupCategory categories r) r \<notin> set Object_prototype_names"
  shows "pieDistribution [r] categories =
           [\<lparr>pie_name = pieCategoryName (lookupCategory categories r) r, pie_value = 1\<rparr>]"
proof -
  let ?n = "pieCategoryName (lookupCategory categories r) r"
  have cnt: "\<And>k. reportsNamed categories [r] k = (if ?n = k then 1 else 0)"
    by (simp add: reportsNamed_def)
  have "?n \<in> set (pieKeys categories [r])"
    using assms by (simp add: counted_in_keys cnt)
  then have f: "filter (\<lambda>k. k = ?n) (pieKeys categories [r]) = [?n]"
    by (rule filter_eq_single[OF pieKeys_distinct])
  have "(\<lambda>k. k \<notin> set Object_prototype_names \<and> 0 < reportsNamed categories [r] k) = (\<lambda>k. k = ?n)"
    using assms by (auto simp: cnt fun_eq_iff)
  then show ?thesis
    using pieDistribution_nonempty[of r "[r]" categories, OF _ assms]
    by (simp add: f cnt)
qed

section \<open>The claims about the regional series, the distribution and category names\<close>

lemmas ex_defs = bookReportBy_def sevenUsers_def sevenReports_def numberedUsers_def
  numberedReports_def reportBy_def blankReport_def templeUser_def empty_user_def blankContact_def

lemmas js_defs = obj_get_def Object_prototype_names_def builtin_name_def prop_key_def str_or_def
  truthy_str_def truthy_num_def num_or_zero_def is_array_index_def is_digit_def
  nat_of_digits_def key_order_def

lemma reportRegion_cases:
  "reportRegion users r =
     (case map_of users (prop_key (createdBy r)) of
        None \<Rightarrow> ''Unknown''
      | Some u \<Rightarrow> (case temple u of
                    None \<Rightarrow> ''Unknown''
                  | Some t \<Rightarrow> (if t = [] then ''Unknown'' else t)))"
  by (simp add: reportRegion_def lookupUser_def obj_get_def inherited_user_def str_or_def
        empty_user_def split: option.splits)

text \<open>
  Claim C5, as the code has it. Reports are grouped by the temple of their author, with
  \<open>Unknown\<close> when the author is not in the directory or has no temple; each group holds the
  sum of the book counts, the sum of the prasadam counts and the number of its reports. For
  temple names none of which is the name of a member of \<open>Object.prototype\<close>, the series
  lists the first five keys of the grouping object in the order \<open>Object.keys\<close> gives: keys
  that are array indices first, in ascending numeric order, then the other keys in the
  order in which the reports first met them. When, in addition, no temple name is an array
  index, these are the first five distinct temples met, whatever their volume.
\<close>

theorem regional_series:
  "((\<forall>q \<in> set reports. reportRegion users q \<notin> set Object_prototype_names) \<longrightarrow>
      chartSeries reports users =
        (let ks = take 5 (key_order (first_occurrences (map (reportRegion users) reports)))
         in Returned
              \<lparr>regions = ks,
               booksData = map (\<lambda>k. sum_list (map countBooks (regionReports users reports k))) ks,
               prasadamData =
                 map (\<lambda>k. sum_list (map countPrasadam (regionReports users reports k))) ks,
               eventsData = map (\<lambda>k. int (length (regionReports users reports k))) ks\<rparr>))
   \<and> reportRegion users r =
       (case map_of users (prop_key (createdBy r)) of
          None \<Rightarrow> ''Unknown''
        | Some u \<Rightarrow> (case temple u of
                      None \<Rightarrow> ''Unknown''
                    | Some t \<Rightarrow> (if t = [] then ''Unknown'' else t)))
   \<and> ((\<forall>q \<in> set reports. \<not> is_array_index (reportRegion users q)) \<longrightarrow>
        key_order (first_occurrences (map (reportRegion users) reports)) =
          first_occurrences (map (reportRegion users) reports))"
proof -
  have a: "chartSeries reports users =
        (let ks = take 5 (key_order (first_occurrences (map (reportRegion users) reports)))
         in Returned
              \<lparr>regions = ks,
               booksData = map (\<lambda>k. sum_list (map countBooks (regionReports users reports k))) ks,
               prasadamData =
                 map (\<lambda>k. sum_list (map countPrasadam (regionReports users reports k))) ks,
               eventsData = map (\<lambda>k. int (length (regionReports users reports k))) ks\<rparr>)"
    if h: "\<forall>q \<in> set reports. reportRegion users q \<notin> set Object_prototype_names"
  proof -
    have "filter (\<lambda>k. k \<notin> set Object_prototype_names) (map (reportRegion users) reports)
            = map (\<lambda>q. reportRegion users q) reports"
      using h by (simp add: filter_id_conv)
    then show ?thesis
      by (simp add: chartSeries_eq regionTotals_def Let_def)
  qed
  have c: "key_order (first_occurrences (map (reportRegion users) reports)) =
          first_occurrences (map (reportRegion users) reports)"
    if "\<forall>q \<in> set reports. \<not> is_array_index (reportRegion users q)"
    by (rule key_order_plain) (use that in auto)
  from a c reportRegion_cases show ?thesis by blast
qed

lemma sevenRegions:
  "map (reportRegion sevenUsers) sevenReports =
     [''Kuala Lumpur'', ''Penang'', ''Johor'', ''Ipoh'', ''Kuching'', ''Melaka'', ''Klang'',
      ''Kuala Lumpur'']"
  by (simp add: reportRegion_def lookupUser_def ex_defs js_defs)

text \<open>
  Seven temples, the sixth and seventh with the most books: the series holds the first
  five met.
\<close>

theorem regional_series_witness:
  "list_all (\<lambda>q. reportRegion sevenUsers q \<notin> set Object_prototype_names) sevenReports
   \<and> list_all (\<lambda>q. \<not> is_array_index (reportRegion sevenUsers q)) sevenReports
   \<and> chartSeries sevenReports sevenUsers =
       Returned \<lparr>regions = [''Kuala Lumpur'', ''Penang'', ''Johor'', ''Ipoh'', ''Kuching''],
                 booksData = [11, 2, 3, 4, 5],
                 prasadamData = [0, 0, 0, 0, 0],
                 eventsData = [2, 1, 1, 1, 1]\<rparr>"
proof -
  have p: "\<forall>q \<in> set sevenReports. reportRegion sevenUsers q \<notin> set Object_prototype_names"
    by (simp add: reportRegion_def lookupUser_def ex_defs js_defs)
  have h: "\<forall>q \<in> set sevenReports. \<not> is_array_index (reportRegion sevenUsers q)"
    by (simp add: reportRegion_def lookupUser_def ex_defs js_defs)
  note th = regional_series [of sevenReports sevenUsers blankReport]
  have k: "key_order (first_occurrences (map (reportRegion sevenUsers) sevenReports)) =
             [''Kuala Lumpur'', ''Penang'', ''Johor'', ''Ipoh'', ''Kuching'', ''Melaka'', ''Klang'']"
    using th h by (simp add: sevenRegions)
  from th p have "chartSeries sevenReports sevenUsers =
        (let ks = take 5 (key_order (first_occurrences (map (reportRegion sevenUsers) sevenReports)))
         in Returned
              \<lparr>regions = ks,
               booksData =
                 map (\<lambda>k. sum_list (map countBooks (regionReports sevenUsers sevenReports k))) ks,
               prasadamData =
                 map (\<lambda>k. sum_list (map countPrasadam (regionReports sevenUsers sevenReports k))) ks,
               eventsData = map (\<lambda>k. int (length (regionReports sevenUsers sevenReports k))) ks\<rparr>)"
    by blast
  then have "chartSeries sevenReports sevenUsers =
       Returned \<lparr>regions = [''Kuala Lumpur'', ''Penang'', ''Johor'', ''Ipoh'', ''Kuching''],
                 booksData = [11, 2, 3, 4, 5],
                 prasadamData = [0, 0, 0, 0, 0],
                 eventsData = [2, 1, 1, 1, 1]\<rparr>"
    unfolding k Let_def
    by (simp add: regionReports_def reportRegion_def lookupUser_def countBooks_def
          countPrasadam_def ex_defs js_defs)
  with p h show ?thesis by (simp add: list_all_iff)
qed

text \<open>
  Claim C5 as stated fails for a temple whose name is an array index: with the temples
  \<open>A, B, C, D, E, 7\<close> met in this order the series starts with \<open>7\<close> and leaves out \<open>E\<close>.
\<close>

theorem regional_series_counterexample:
  "chartSeries numberedReports numberedUsers =
     Returned \<lparr>regions = [''7'', ''A'', ''B'', ''C'', ''D''],
               booksData = [0, 0, 0, 0, 0],
               prasadamData = [0, 0, 0, 0, 0],
               eventsData = [1, 1, 1, 1, 1]\<rparr>
   \<and> take 5 (first_occurrences (map (reportRegion numberedUsers) numberedReports)) =
       [''A'', ''B'', ''C'', ''D'', ''E'']"
  by (simp add: chartSeries_def chart_step_def add_report_def obj_modify_def Object_entries_def
        reportRegion_def lookupUser_def countBooks_def countPrasadam_def Let_def ex_defs js_defs)

text \<open>
  A temple named \<open>constructor\<close> gets no group: its reports are in none of the series.
\<close>

lemma regional_series_inherited_name:
  "chartSeries constructorTempleReports constructorUsers =
     Returned \<lparr>regions = [''Penang''], booksData = [1], prasadamData = [0], eventsData = [1]\<rparr>"
  by (simp add: chartSeries_def chart_step_def add_report_def obj_modify_def Object_entries_def
        reportRegion_def lookupUser_def countBooks_def countPrasadam_def Let_def
        constructorTempleReports_def constructorUsers_def ex_defs js_defs)

lemmas pie_defs = pieDistribution_def categoryCounts_def pie_count_step_def pie_init_step_def
  ensure_count_def increment_def truthy_count_def add_one_def positive_entry_def
  List.map_filter_simps Object_values_def Object_entries_def categoryLabel_def
  pieCategoryName_def lookupCategory_def inherited_category_def empty_category_def Let_def

text \<open>
  For reports none of whose names is the name of a member of \<open>Object.prototype\<close>, the
  distribution is what claim C6 describes: the count under a name is the number of reports
  of that name, entries without reports are left out, the rest is sorted by descending
  count with each name once, and without reports all known categories are returned at \<open>0\<close>.
\<close>

lemma category_distribution_own_names:
  assumes own: "\<forall>n \<in> set (resolvedNames categories reports). n \<notin> set Object_prototype_names"
  shows "(reports = [] \<longrightarrow>
            pieDistribution reports categories =
              map (\<lambda>cat. \<lparr>pie_name = categoryLabel cat, pie_value = 0\<rparr>)
                (Object_values categories))
         \<and> (reports \<noteq> [] \<longrightarrow>
              set (pieDistribution reports categories) =
                {\<lparr>pie_name = m, pie_value = int (reportsNamed categories reports m)\<rparr> | m.
                   0 < reportsNamed categories reports m}
              \<and> distinct (map pie_name (pieDistribution reports categories))
              \<and> sorted_wrt (\<lambda>a b. pie_value b \<le> pie_value a)
                   (pieDistribution reports categories))"
proof (cases reports)
  case Nil
  then show ?thesis by (simp add: pieDistribution_empty)
next
  case (Cons r rs)
  let ?n = "pieCategoryName (lookupCategory categories r) r"
  let ?xs = "map (\<lambda>k. \<lparr>pie_name = k, pie_value = int (reportsNamed categories reports k)\<rparr>)
               (filter (\<lambda>k. k \<notin> set Object_prototype_names
                              \<and> 0 < reportsNamed categories reports k)
                  (pieKeys categories reports))"
  have r: "r \<in> set reports" using Cons by simp
  then have "?n \<in> set (resolvedNames categories reports)" by (auto simp: resolvedNames_def)
  with own have n: "?n \<notin> set Object_prototype_names" by blast
  have eq: "pieDistribution reports categories = sort_key (\<lambda>e. - pie_value e) ?xs"
    by (rule pieDistribution_nonempty[OF r n])
  have pos: "\<And>m. 0 < reportsNamed categories reports m \<Longrightarrow> m \<notin> set Object_prototype_names"
    using own by (simp add: reportsNamed_pos_iff)
  have s: "set (pieDistribution reports categories) =
             {\<lparr>pie_name = m, pie_value = int (reportsNamed categories reports m)\<rparr> | m.
                0 < reportsNamed categories reports m}"
    unfolding eq using pos by (auto simp: counted_in_keys)
  have d: "distinct (map pie_name (pieDistribution reports categories))"
    unfolding eq by (simp add: distinct_map_sort_key comp_def pieKeys_distinct)
  have "sorted (map (\<lambda>e. - pie_value e) (pieDistribution reports categories))"
    unfolding eq by (rule sorted_sort_key)
  then have o: "sorted_wrt (\<lambda>a b. pie_value b \<le> pie_value a) (pieDistribution reports categories)"
    by (simp add: sorted_map)
  from s d o Cons show ?thesis by simp
qed

lemma category_distribution_examples:
  "pieDistribution [] categoriesAB =
     [\<lparr>pie_name = ''A'', pie_value = 0\<rparr>, \<lparr>pie_name = ''B'', pie_value = 0\<rparr>]
   \<and> pieDistribution [blankReport\<lparr>categoryId := Some ''a''\<rparr>] categoriesAB =
       [\<lparr>pie_name = ''A'', pie_value = 1\<rparr>]"
  by (simp add: pie_defs categoriesAB_def ex_defs js_defs)

text \<open>
  Claim C6 says that every report adds one to the count of its category name and that the
  counted names are returned. For a category named \<open>constructor\<close> with one report, the
  report falls under that name, yet the distribution holds no entry with a count: the
  filtered list is empty and the category is returned with value \<open>0\<close>. A report whose
  \<open>categoryId\<close> is \<open>valueOf\<close>, without any category, gives the empty list.
\<close>

theorem category_distribution_inherited_name:
  "reportsNamed constructorCategory [constructorReport] ''constructor'' = 1
   \<and> pieDistribution [constructorReport] constructorCategory =
       [\<lparr>pie_name = ''constructor'', pie_value = 0\<rparr>]
   \<and> categoryCounts [constructorReport] constructorCategory = [(''constructor'', Text)]
   \<and> pieDistribution [valueOfReport] [] = []"
  by (simp add: reportsNamed_def pie_defs constructorCategory_def constructorReport_def
        valueOfReport_def ex_defs js_defs)

lemma activityName_eq:
  "activityName cat r = resolveCategoryName_spec ''Unknown Activity'' cat r"
  by (simp add: activityName_def resolveCategoryName_spec_def str_or_def truthy_str_def
        split: option.splits)

lemma pieCategoryName_eq:
  "pieCategoryName cat r =
     str_or (categoryName cat) (str_or (name cat) (str_or (report_categoryName r) ''Other''))"
  by (simp add: pieCategoryName_def str_or_def truthy_str_def split: option.splits)

lemma other_not_inherited: "''Other'' \<notin> set Object_prototype_names"
  by (simp add: Object_prototype_names_def)

text \<open>
  Claim C2, as the code has it. An enriched row takes the first non-empty name of
  \<open>category.categoryName\<close>, \<open>report.categoryName\<close>, \<open>category.name\<close> and otherwise
  \<open>Unknown Activity\<close>. The distribution counts a report under the first non-empty name of
  \<open>category.categoryName\<close>, \<open>category.name\<close>, \<open>report.categoryName\<close> and otherwise under
  \<open>Other\<close>, when that name is not the name of a member of \<open>Object.prototype\<close>. A report of
  a known category with a non-empty \<open>categoryName\<close> gets that name in its row, and in the
  distribution when the name is not the name of such a member. A report whose \<open>categoryId\<close>
  is neither a known category nor the name of such a member, and which has no name of its
  own, is \<open>Unknown Activity\<close> in its row and \<open>Other\<close> in the distribution.
\<close>

theorem category_name_resolution:
  "map activity (recentRows limitCount reports categories users) =
     map (\<lambda>q. resolveCategoryName_spec ''Unknown Activity'' (lookupCategory categories q) q)
       (slice0 limitCount reports)
   \<and> (pieCategoryName (lookupCategory categories r) r \<notin> set Object_prototype_names \<longrightarrow>
        pieDistribution [r] categories =
          [\<lparr>pie_name = str_or (categoryName (lookupCategory categories r))
                         (str_or (name (lookupCategory categories r))
                            (str_or (report_categoryName r) ''Other'')),
            pie_value = 1\<rparr>])
   \<and> (categoryId r = Some k \<and> map_of categories k = Some c \<and> categoryName c = Some n \<and> n \<noteq> []
        \<longrightarrow> activity (enrichReport categories users r) = n
            \<and> (n \<notin> set Object_prototype_names \<longrightarrow>
                 pieDistribution [r] categories = [\<lparr>pie_name = n, pie_value = 1\<rparr>]))
   \<and> (map_of categories (prop_key (categoryId r)) = None
       \<and> prop_key (categoryId r) \<notin> set Object_prototype_names
       \<and> \<not> truthy_str (report_categoryName r)
        \<longrightarrow> activity (enrichReport categories users r) = ''Unknown Activity''
            \<and> pieDistribution [r] categories = [\<lparr>pie_name = ''Other'', pie_value = 1\<rparr>])"
proof -
  have a: "map activity (recentRows limitCount reports categories users) =
     map (\<lambda>q. resolveCategoryName_spec ''Unknown Activity'' (lookupCategory categories q) q)
       (slice0 limitCount reports)"
    by (simp add: recentRows_def enrichReport_def Let_def activityName_eq comp_def)
  have b: "pieDistribution [r] categories =
          [\<lparr>pie_name = str_or (categoryName (lookupCategory categories r))
                         (str_or (name (lookupCategory categories r))
                            (str_or (report_categoryName r) ''Other'')),
            pie_value = 1\<rparr>]"
    if "pieCategoryName (lookupCategory categories r) r \<notin> set Object_prototype_names"
    using pieDistribution_single[OF that] by (simp add: pieCategoryName_eq)
  have c: "activity (enrichReport categories users r) = n
            \<and> (n \<notin> set Object_prototype_names \<longrightarrow>
                 pieDistribution [r] categories = [\<lparr>pie_name = n, pie_value = 1\<rparr>])"
    if h: "categoryId r = Some k \<and> map_of categories k = Some c \<and> categoryName c = Some n \<and> n \<noteq> []"
  proof -
    have l: "lookupCategory categories r = c"
      using h by (simp add: lookupCategory_def obj_get_def prop_key_def)
    have p: "pieCategoryName (lookupCategory categories r) r = n"
      using h by (simp add: l pieCategoryName_eq str_or_def)
    have "activity (enrichReport categories users r) = n"
      using h by (simp add: enrichReport_def Let_def activityName_eq
            resolveCategoryName_spec_def l str_or_def)
    moreover have "pieDistribution [r] categories = [\<lparr>pie_name = n, pie_value = 1\<rparr>]"
      if "n \<notin> set Object_prototype_names"
      using pieDistribution_single[of categories r] that by (simp add: p)
    ultimately show ?thesis by blast
  qed
  have d: "activity (enrichReport categories users r) = ''Unknown Activity''
            \<and> pieDistribution [r] categories = [\<lparr>pie_name = ''Other'', pie_value = 1\<rparr>]"
    if h: "map_of categories (prop_key (categoryId r)) = None
           \<and> prop_key (categoryId r) \<notin> set Object_prototype_names
           \<and> \<not> truthy_str (report_categoryName r)"
  proof -
    have l: "lookupCategory categories r = empty_category"
      using h by (simp add: lookupCategory_def obj_get_def)
    have p: "pieCategoryName (lookupCategory categories r) r = ''Other''"
      using h by (simp add: l pieCategoryName_def empty_category_def truthy_str_def)
    have "activity (enrichReport categories users r) = ''Unknown Activity''"
      using h by (simp add: enrichReport_def Let_def activityName_def l empty_category_def
            truthy_str_def)
    moreover have "pieDistribution [r] categories = [\<lparr>pie_name = ''Other'', pie_value = 1\<rparr>]"
      using pieDistribution_single[of categories r] other_not_inherited by (simp add: p)
    ultimately show ?thesis by blast
  qed
  from a b c d show ?thesis by blast
qed

text \<open>
  A report of the known category \<open>a\<close> is named \<open>A\<close> in both views; a report of the unknown
  category \<open>zz\<close> is \<open>Unknown Activity\<close> in its row and \<open>Other\<close> in the distribution.
\<close>

theorem category_name_resolution_witness:
  "(categoryId (blankReport\<lparr>categoryId := Some ''a''\<rparr>) = Some ''a''
      \<and> map_of categoriesAB ''a'' = Some \<lparr>categoryName = Some ''A'', name = None\<rparr>
      \<and> categoryName \<lparr>categoryName = Some ''A'', name = None\<rparr> = Some ''A'' \<and> ''A'' \<noteq> []
      \<and> ''A'' \<notin> set Object_prototype_names)
   \<and> activity (enrichReport categoriesAB [] (blankReport\<lparr>categoryId := Some ''a''\<rparr>)) = ''A''
   \<and> pieDistribution [blankReport\<lparr>categoryId := Some ''a''\<rparr>] categoriesAB
       = [\<lparr>pie_name = ''A'', pie_value = 1\<rparr>]
   \<and> (map_of categoriesAB (prop_key (categoryId (blankReport\<lparr>categoryId := Some ''zz''\<rparr>))) = None
      \<and> prop_key (categoryId (blankReport\<lparr>categoryId := Some ''zz''\<rparr>))
           \<notin> set Object_prototype_names
      \<and> \<not> truthy_str (report_categoryName (blankReport\<lparr>categoryId := Some ''zz''\<rparr>)))
   \<and> activity (enrichReport categoriesAB [] (blankReport\<lparr>categoryId := Some ''zz''\<rparr>))
       = ''Unknown Activity''
   \<and> pieDistribution [blankReport\<lparr>categoryId := Some ''zz''\<rparr>] categoriesAB
       = [\<lparr>pie_name = ''Other'', pie_value = 1\<rparr>]"
proof -
  have h1: "categoryId (blankReport\<lparr>categoryId := Some ''a''\<rparr>) = Some ''a''
      \<and> map_of categoriesAB ''a'' = Some \<lparr>categoryName = Some ''A'', name = None\<rparr>
      \<and> categoryName \<lparr>categoryName = Some ''A'', name = None\<rparr> = Some ''A'' \<and> ''A'' \<noteq> []"
    by (simp add: categoriesAB_def)
  have h1': "''A'' \<notin> set Object_prototype_names" by (simp add: Object_prototype_names_def)
  have h2: "map_of categoriesAB (prop_key (categoryId (blankReport\<lparr>categoryId := Some ''zz''\<rparr>))) = None
      \<and> prop_key (categoryId (blankReport\<lparr>categoryId := Some ''zz''\<rparr>))
           \<notin> set Object_prototype_names
      \<and> \<not> truthy_str (report_categoryName (blankReport\<lparr>categoryId := Some ''zz''\<rparr>))"
    by (simp add: categoriesAB_def blankReport_def js_defs)
  from category_name_resolution
          [of 10 "[]" categoriesAB "[]" "blankReport\<lparr>categoryId := Some ''a''\<rparr>" "''a''"
              "\<lparr>categoryName = Some ''A'', name = None\<rparr>" "''A''"] h1 h1'
  have r1: "activity (enrichReport categoriesAB [] (blankReport\<lparr>categoryId := Some ''a''\<rparr>)) = ''A''
     \<and> pieDistribution [blankReport\<lparr>categoryId := Some ''a''\<rparr>] categoriesAB
         = [\<lparr>pie_name = ''A'', pie_value = 1\<rparr>]"
    by blast
  from category_name_resolution
          [of 10 "[]" categoriesAB "[]" "blankReport\<lparr>categoryId := Some ''zz''\<rparr>" "''a''"
              "\<lparr>categoryName = Some ''A'', name = None\<rparr>" "''A''"] h2
  have r2: "activity (enrichReport categoriesAB [] (blankReport\<lparr>categoryId := Some ''zz''\<rparr>))
       = ''Unknown Activity''
     \<and> pieDistribution [blankReport\<lparr>categoryId := Some ''zz''\<rparr>] categoriesAB
       = [\<lparr>pie_name = ''Other'', pie_value = 1\<rparr>]"
    by blast
  from h1 h1' h2 r1 r2 show ?thesis by blast
qed

text \<open>
  Claim C2 as stated fails in the distribution: for a category with only
  \<open>name: A\<close> and a report with \<open>categoryName: B\<close>, the distribution counts the report
  under \<open>A\<close>, while the stated order gives \<open>B\<close> (as the row does).
\<close>

theorem category_name_resolution_counterexample:
  "pieDistribution [relabelledReport] namedOnly = [\<lparr>pie_name = ''A'', pie_value = 1\<rparr>]
   \<and> resolveCategoryName_spec ''Other'' (lookupCategory namedOnly relabelledReport)
        relabelledReport = ''B''
   \<and> activity (enrichReport namedOnly [] relabelledReport) = ''B''"
  by (simp add: pie_defs namedOnly_def relabelledReport_def resolveCategoryName_spec_def
        enrichReport_def activityName_def ex_defs js_defs)

text \<open>
  A \<open>categoryId\<close> that is the name of a member of \<open>Object.prototype\<close> finds that member: the
  row of a report with \<open>categoryId: constructor\<close> and no categories is named \<open>Object\<close>.
\<close>

lemma category_name_inherited_member:
  "activity (enrichReport [] [] (blankReport\<lparr>categoryId := Some ''constructor''\<rparr>)) = ''Object''
   \<and> pieDistribution [blankReport\<lparr>categoryId := Some ''constructor''\<rparr>] [] =
       [\<lparr>pie_name = ''Object'', pie_value = 1\<rparr>]"
  by (simp add: pie_defs enrichReport_def activityName_def ex_defs js_defs)

section \<open>Properties of the cache, the fetchers and the listeners\<close>

text \<open>Each fetcher, with its \<open>try\<close> and \<open>catch\<close> blocks put together.\<close>

lemma fetchActivityReports_cases:
  "fetchActivityReports st now w =
     (if reportsCached now w
      then (Returned (case activityReports (dataCache w) of Some cached \<Rightarrow> cached | None \<Rightarrow> []), w)
      else (case failing st ''activityReports'' of
              Some e \<Rightarrow>
                (Returned [],
                 w\<lparr>trace := trace w @ [GetDocs ''activityReports'',
                                        ConsoleError ''Error fetching activity reports:'']\<rparr>)
            | None \<Rightarrow>
                (Returned (map reportOfDoc (activityReports_docs st)),
                 \<lparr>dataCache = (dataCache w)\<lparr>activityReports :=
                                                Some (map reportOfDoc (activityReports_docs st)),
                                              lastFetch := Some now\<rparr>,
                  trace = trace w @ [GetDocs ''activityReports'']\<rparr>)))"
  by (auto simp: fetchActivityReports_def fetchActivityReports_try_def reportsCached_def
        getDocs_activityReports_def emit_def Let_def split: option.splits)

lemma fetchPreachingCategories_cases:
  "fetchPreachingCategories st now w =
     (if categoriesCached now w
      then (Returned (case preachingCategories (dataCache w) of Some cached \<Rightarrow> cached | None \<Rightarrow> []), w)
      else (case failing st ''preachingCategories'' of
              Some e \<Rightarrow>
                (Returned [],
                 w\<lparr>trace := trace w @ [GetDocs ''preachingCategories'',
                                        ConsoleError ''Error fetching preaching categories:'']\<rparr>)
            | None \<Rightarrow>
                (Returned (objOfDocs (preachingCategories_docs st)),
                 \<lparr>dataCache = (dataCache w)\<lparr>preachingCategories :=
                                                Some (objOfDocs (preachingCategories_docs st))\<rparr>,
                  trace = trace w @ [GetDocs ''preachingCategories'']\<rparr>)))"
  by (auto simp: fetchPreachingCategories_def fetchPreachingCategories_try_def categoriesCached_def
        getDocs_preachingCategories_def emit_def Let_def split: option.splits)

lemma fetchUsers_cases:
  "fetchUsers st now w =
     (if usersCached now w
      then (Returned (case users_coll (dataCache w) of Some cached \<Rightarrow> cached | None \<Rightarrow> []), w)
      else (case failing st ''users'' of
              Some e \<Rightarrow>
                (Returned [],
                 w\<lparr>trace := trace w @ [GetDocs ''users'', ConsoleError ''Error fetching users:'']\<rparr>)
            | None \<Rightarrow>
                (Returned (objOfDocs (users_docs st)),
                 \<lparr>dataCache = (dataCache w)\<lparr>users_coll := Some (objOfDocs (users_docs st))\<rparr>,
                  trace = trace w @ [GetDocs ''users'']\<rparr>)))"
  by (auto simp: fetchUsers_def fetchUsers_try_def usersCached_def
        getDocs_users_def emit_def Let_def split: option.splits)

text \<open>
  Claim C9. None of the three fetchers throws: each returns a value for every store, clock
  and cache. When the store rejects the request, the \<open>try\<close> block throws that error after
  the query, and the fetcher logs it and returns the empty sequence (reports) or the empty
  mapping (categories, users).
\<close>

theorem fetchers_never_throw:
  "(\<exists>v w'. fetchActivityReports st now w = (Returned v, w'))
   \<and> (\<exists>v w'. fetchPreachingCategories st now w = (Returned v, w'))
   \<and> (\<exists>v w'. fetchUsers st now w = (Returned v, w'))
   \<and> (\<not> reportsCached now w \<and> failing st ''activityReports'' = Some e \<longrightarrow>
        fetchActivityReports_try st now w = (Thrown e, emit (GetDocs ''activityReports'') w)
        \<and> fetchActivityReports st now w =
            (Returned [],
             emit (ConsoleError ''Error fetching activity reports:'')
               (emit (GetDocs ''activityReports'') w)))
   \<and> (\<not> categoriesCached now w \<and> failing st ''preachingCategories'' = Some e \<longrightarrow>
        fetchPreachingCategories_try st now w =
          (Thrown e, emit (GetDocs ''preachingCategories'') w)
        \<and> fetchPreachingCategories st now w =
            (Returned [],
             emit (ConsoleError ''Error fetching preaching categories:'')
               (emit (GetDocs ''preachingCategories'') w)))
   \<and> (\<not> usersCached now w \<and> failing st ''users'' = Some e \<longrightarrow>
        fetchUsers_try st now w = (Thrown e, emit (GetDocs ''users'') w)
        \<and> fetchUsers st now w =
            (Returned [],
             emit (ConsoleError ''Error fetching users:'') (emit (GetDocs ''users'') w)))"
proof -
  have r: "\<exists>v w'. fetchActivityReports st now w = (Returned v, w')"
    by (simp add: fetchActivityReports_cases split: option.splits)
  have c: "\<exists>v w'. fetchPreachingCategories st now w = (Returned v, w')"
    by (simp add: fetchPreachingCategories_cases split: option.splits)
  have u: "\<exists>v w'. fetchUsers st now w = (Returned v, w')"
    by (simp add: fetchUsers_cases split: option.splits)
  have re: "fetchActivityReports_try st now w = (Thrown e, emit (GetDocs ''activityReports'') w)
        \<and> fetchActivityReports st now w =
            (Returned [],
             emit (ConsoleError ''Error fetching activity reports:'')
               (emit (GetDocs ''activityReports'') w))"
    if "\<not> reportsCached now w \<and> failing st ''activityReports'' = Some e"
    using that
    by (auto simp: fetchActivityReports_def fetchActivityReports_try_def reportsCached_def
          getDocs_activityReports_def Let_def split: option.splits)
  have ce: "fetchPreachingCategories_try st now w =
          (Thrown e, emit (GetDocs ''preachingCategories'') w)
        \<and> fetchPreachingCategories st now w =
            (Returned [],
             emit (ConsoleError ''Error fetching preaching categories:'')
               (emit (GetDocs ''preachingCategories'') w))"
    if "\<not> categoriesCached now w \<and> failing st ''preachingCategories'' = Some e"
    using that
    by (auto simp: fetchPreachingCategories_def fetchPreachingCategories_try_def
          categoriesCached_def getDocs_preachingCategories_def Let_def split: option.splits)
  have ue: "fetchUsers_try st now w = (Thrown e, emit (GetDocs ''users'') w)
        \<and> fetchUsers st now w =
            (Returned [],
             emit (ConsoleError ''Error fetching users:'') (emit (GetDocs ''users'') w))"
    if "\<not> usersCached now w \<and> failing st ''users'' = Some e"
    using that
    by (auto simp: fetchUsers_def fetchUsers_try_def usersCached_def getDocs_users_def Let_def
          split: option.splits)
  from r c u re ce ue show ?thesis by blast
qed

text \<open>With an unavailable store and an empty cache, all three fetchers return empty.\<close>

theorem fetchers_never_throw_witness:
  "(\<not> reportsCached 1000 (freshWorld :: unit world)
      \<and> failing brokenStore ''activityReports'' = Some (StoreError ''unavailable''))
   \<and> fetchActivityReports brokenStore 1000 (freshWorld :: unit world) =
       (Returned [],
        \<lparr>dataCache = emptyCache,
         trace = [GetDocs ''activityReports'',
                  ConsoleError ''Error fetching activity reports:'']\<rparr>)
   \<and> (\<not> categoriesCached 1000 (freshWorld :: unit world)
      \<and> failing brokenStore ''preachingCategories'' = Some (StoreError ''unavailable''))
   \<and> fst (fetchPreachingCategories brokenStore 1000 (freshWorld :: unit world)) = Returned []
   \<and> (\<not> usersCached 1000 (freshWorld :: unit world)
      \<and> failing brokenStore ''users'' = Some (StoreError ''unavailable''))
   \<and> fst (fetchUsers brokenStore 1000 (freshWorld :: unit world)) = Returned []"
  using fetchers_never_throw
          [of brokenStore 1000 "freshWorld :: unit world" "StoreError ''unavailable''"]
  by (simp add: reportsCached_def categoriesCached_def usersCached_def freshWorld_def
        emptyCache_def isCacheValid_def brokenStore_def emit_def)

text \<open>
  Claim C7. Fetching categories or users never changes \<open>lastFetch\<close>, and stores the
  fetched mapping when it queries the store successfully; a successful reports fetch
  stamps \<open>lastFetch\<close>. \<open>clearCache\<close> sets the three collections and the timestamp to
  \<open>null\<close>; the cache is then invalid, and the next fetch of each collection queries the
  store: the reports fetch returns the store's documents (or the empty sequence when the
  store fails), not what was cached.
\<close>

theorem cache_coupling:
  "lastFetch (dataCache (snd (fetchPreachingCategories st now w))) = lastFetch (dataCache w)
   \<and> lastFetch (dataCache (snd (fetchUsers st now w))) = lastFetch (dataCache w)
   \<and> (\<not> categoriesCached now w \<and> failing st ''preachingCategories'' = None \<longrightarrow>
        preachingCategories (dataCache (snd (fetchPreachingCategories st now w))) =
          Some (objOfDocs (preachingCategories_docs st)))
   \<and> (\<not> usersCached now w \<and> failing st ''users'' = None \<longrightarrow>
        users_coll (dataCache (snd (fetchUsers st now w))) = Some (objOfDocs (users_docs st)))
   \<and> (\<not> reportsCached now w \<and> failing st ''activityReports'' = None \<longrightarrow>
        lastFetch (dataCache (snd (fetchActivityReports st now w))) = Some now)
   \<and> dataCache (clearCache w) =
       \<lparr>activityReports = None, preachingCategories = None, users_coll = None,
        lastFetch = None\<rparr>
   \<and> \<not> isCacheValid now (dataCache (clearCache w))
   \<and> fetchActivityReports st now (clearCache w) =
       (case failing st ''activityReports'' of
          None \<Rightarrow>
            (Returned (map reportOfDoc (activityReports_docs st)),
             \<lparr>dataCache = emptyCache\<lparr>activityReports :=
                                         Some (map reportOfDoc (activityReports_docs st)),
                                       lastFetch := Some now\<rparr>,
              trace = trace w @ [GetDocs ''activityReports'']\<rparr>)
        | Some e \<Rightarrow>
            (Returned [],
             \<lparr>dataCache = emptyCache,
              trace = trace w @ [GetDocs ''activityReports'',
                                 ConsoleError ''Error fetching activity reports:'']\<rparr>))
   \<and> (\<exists>rest. trace (snd (fetchPreachingCategories st now (clearCache w))) =
                trace w @ GetDocs ''preachingCategories'' # rest)
   \<and> (\<exists>rest. trace (snd (fetchUsers st now (clearCache w))) =
                trace w @ GetDocs ''users'' # rest)"
proof -
  have nv: "\<not> isCacheValid now (dataCache (clearCache w))"
    by (simp add: clearCache_def emptyCache_def isCacheValid_def)
  then have nc: "\<not> reportsCached now (clearCache w)" "\<not> categoriesCached now (clearCache w)"
       "\<not> usersCached now (clearCache w)"
    by (simp_all add: reportsCached_def categoriesCached_def usersCached_def)
  have a: "lastFetch (dataCache (snd (fetchPreachingCategories st now w))) = lastFetch (dataCache w)"
    by (simp add: fetchPreachingCategories_cases split: option.splits)
  have b: "lastFetch (dataCache (snd (fetchUsers st now w))) = lastFetch (dataCache w)"
    by (simp add: fetchUsers_cases split: option.splits)
  have c: "preachingCategories (dataCache (snd (fetchPreachingCategories st now w))) =
          Some (objOfDocs (preachingCategories_docs st))"
    if "\<not> categoriesCached now w \<and> failing st ''preachingCategories'' = None"
    using that by (simp add: fetchPreachingCategories_cases)
  have d: "users_coll (dataCache (snd (fetchUsers st now w))) = Some (objOfDocs (users_docs st))"
    if "\<not> usersCached now w \<and> failing st ''users'' = None"
    using that by (simp add: fetchUsers_cases)
  have e: "lastFetch (dataCache (snd (fetchActivityReports st now w))) = Some now"
    if "\<not> reportsCached now w \<and> failing st ''activityReports'' = None"
    using that by (simp add: fetchActivityReports_cases)
  have f: "dataCache (clearCache w) =
       \<lparr>activityReports = None, preachingCategories = None, users_coll = None,
        lastFetch = None\<rparr>"
    by (simp add: clearCache_def emptyCache_def)
  have g: "fetchActivityReports st now (clearCache w) =
       (case failing st ''activityReports'' of
          None \<Rightarrow>
            (Returned (map reportOfDoc (activityReports_docs st)),
             \<lparr>dataCache = emptyCache\<lparr>activityReports :=
                                         Some (map reportOfDoc (activityReports_docs st)),
                                       lastFetch := Some now\<rparr>,
              trace = trace w @ [GetDocs ''activityReports'']\<rparr>)
        | Some e \<Rightarrow>
            (Returned [],
             \<lparr>dataCache = emptyCache,
              trace = trace w @ [GetDocs ''activityReports'',
                                 ConsoleError ''Error fetching activity reports:'']\<rparr>))"
    using nc(1) by (simp add: fetchActivityReports_cases clearCache_def split: option.splits)
  have h: "\<exists>rest. trace (snd (fetchPreachingCategories st now (clearCache w))) =
                trace w @ GetDocs ''preachingCategories'' # rest"
    using nc(2) by (simp add: fetchPreachingCategories_cases clearCache_def split: option.splits)
  have i: "\<exists>rest. trace (snd (fetchUsers st now (clearCache w))) =
                trace w @ GetDocs ''users'' # rest"
    using nc(3) by (simp add: fetchUsers_cases clearCache_def split: option.splits)
  from a b c d e f nv g h i show ?thesis by blast
qed

text \<open>
  On an empty cache, fetching categories stores them and leaves \<open>lastFetch\<close> unset, and
  fetching reports stamps it. A second reports fetch within five minutes makes no query;
  after \<open>clearCache\<close> it queries again.
\<close>

theorem cache_coupling_witness:
  "(\<not> categoriesCached 1000 (freshWorld :: unit world)
      \<and> failing smallStore ''preachingCategories'' = None)
   \<and> dataCache (snd (fetchPreachingCategories smallStore 1000 (freshWorld :: unit world))) =
       emptyCache\<lparr>preachingCategories := Some categoriesAB\<rparr>
   \<and> (\<not> usersCached 1000 (freshWorld :: unit world) \<and> failing smallStore ''users'' = None)
   \<and> lastFetch (dataCache (snd (fetchUsers smallStore 1000 (freshWorld :: unit world)))) = None
   \<and> (\<not> reportsCached 1000 (freshWorld :: unit world)
      \<and> failing smallStore ''activityReports'' = None)
   \<and> lastFetch (dataCache (snd (fetchActivityReports smallStore 1000 (freshWorld :: unit world))))
       = Some 1000
   \<and> trace (snd (fetchActivityReports smallStore 2000
                   (snd (fetchActivityReports smallStore 1000 (freshWorld :: unit world)))))
       = [GetDocs ''activityReports'']
   \<and> trace (snd (fetchActivityReports smallStore 2000
                   (clearCache
                      (snd (fetchActivityReports smallStore 1000 (freshWorld :: unit world))))))
       = [GetDocs ''activityReports'', GetDocs ''activityReports'']"
  using cache_coupling [of smallStore 1000 "freshWorld :: unit world"]
        cache_coupling
          [of smallStore 2000 "snd (fetchActivityReports smallStore 1000 (freshWorld :: unit world))"]
  by (simp add: reportsCached_def categoriesCached_def usersCached_def freshWorld_def
        emptyCache_def isCacheValid_def CACHE_DURATION_def smallStore_def categoriesAB_def
        objOfDocs_def clearCache_def fetchActivityReports_cases fetchPreachingCategories_cases
        fetchUsers_cases)

text \<open>The reports listener and the views on a cache it has filled.\<close>

lemma listenToActivityReports_Next:
  "listenToActivityReports (Next docs) now w =
     \<lparr>dataCache = (dataCache w)\<lparr>activityReports := Some (map reportOfDoc docs),
                                 lastFetch := Some now\<rparr>,
      trace = trace w @ [Callback (map reportOfDoc docs)]\<rparr>"
  by (simp add: listenToActivityReports_def onSnapshot_def listenToActivityReports_next_def
        emit_def Let_def)

lemma activityReports_push_ok:
  "failing st ''activityReports'' = None \<Longrightarrow>
   activityReports_push st = Next (take 50 (activityReports_docs st))"
  by (simp add: activityReports_push_def getDocs_activityReports_def
        listenToActivityReports_limit_def)

lemma fetchUsers_Returned: "\<exists>v w'. fetchUsers st now w = (Returned v, w')"
  by (simp add: fetchUsers_cases split: option.splits)

lemma fetchPreachingCategories_Returned:
  "\<exists>v w'. fetchPreachingCategories st now w = (Returned v, w')"
  by (simp add: fetchPreachingCategories_cases split: option.splits)

lemma fetchActivityReports_cached:
  "reportsCached now w \<Longrightarrow> activityReports (dataCache w) = Some cached \<Longrightarrow>
   fetchActivityReports st now w = (Returned cached, w)"
  by (simp add: fetchActivityReports_cases)

lemma calculatePreachingImpact_cached:
  assumes "reportsCached now w" "activityReports (dataCache w) = Some cached"
  shows "\<exists>users. fst (calculatePreachingImpact st now w) = impactTotals cached users"
proof -
  obtain users w2 where "fetchUsers st now w = (Returned users, w2)"
    using fetchUsers_Returned by blast
  then have "fst (calculatePreachingImpact st now w) = impactTotals cached users"
    by (simp add: calculatePreachingImpact_def fetchActivityReports_cached[OF assms])
  then show ?thesis ..
qed

lemma getRecentReports_cached:
  assumes "reportsCached now w" "activityReports (dataCache w) = Some cached"
  shows "\<exists>categories users.
           fst (getRecentReports limitCount st now w) = recentRows limitCount cached categories users"
proof -
  obtain categories w2 where c: "fetchPreachingCategories st now w = (Returned categories, w2)"
    using fetchPreachingCategories_Returned by blast
  obtain users w3 where u: "fetchUsers st now w2 = (Returned users, w3)"
    using fetchUsers_Returned by blast
  have "fst (getRecentReports limitCount st now w) = recentRows limitCount cached categories users"
    by (simp add: getRecentReports_def fetchActivityReports_cached[OF assms] c u)
  then show ?thesis by blast
qed

lemma getChartData_cached:
  assumes "reportsCached now w" "activityReports (dataCache w) = Some cached"
  shows "\<exists>users. chartSeries cached users = Returned (fst (getChartData st now w))"
proof -
  obtain users w2 where u: "fetchUsers st now w = (Returned users, w2)"
    using fetchUsers_Returned by blast
  obtain c where c: "chartSeries cached users = Returned c"
    by (simp add: chartSeries_eq Let_def)
  have "fst (getChartData st now w) = c"
    by (simp add: getChartData_def fetchActivityReports_cached[OF assms] u c)
  with c show ?thesis by blast
qed

lemma getPieChartData_cached:
  assumes "reportsCached now w" "activityReports (dataCache w) = Some cached"
  shows "\<exists>categories. fst (getPieChartData st now w) = pieDistribution cached categories"
proof -
  obtain categories w2 where c: "fetchPreachingCategories st now w = (Returned categories, w2)"
    using fetchPreachingCategories_Returned by blast
  have "fst (getPieChartData st now w) = pieDistribution cached categories"
    by (simp add: getPieChartData_def fetchActivityReports_cached[OF assms] c)
  then show ?thesis ..
qed

lemma slice0_length: "length (slice0 n xs) \<le> length xs"
  by (simp add: slice0_def)

text \<open>
  Claim C10. The reports listener's query has \<open>limit(50)\<close>. Every snapshot pushed to it
  replaces the cached reports and stamps \<open>lastFetch\<close>; the pushed snapshot is the first
  fifty documents of the store. While the cache is valid, the reports fetch returns these
  at most fifty reports without a query, and the four views are computed from them. Once
  the cache has expired or has been cleared, the reports fetch returns all documents.
\<close>

theorem live_update_truncates:
  "failing st ''activityReports'' = None \<Longrightarrow>
   listenToActivityReports (Next docs) now w =
     \<lparr>dataCache = (dataCache w)\<lparr>activityReports := Some (map reportOfDoc docs),
                                 lastFetch := Some now\<rparr>,
      trace = trace w @ [Callback (map reportOfDoc docs)]\<rparr>
   \<and> (let w' = listenToActivityReports (activityReports_push st) now w;
           cached = map reportOfDoc (take 50 (activityReports_docs st))
       in dataCache w' = (dataCache w)\<lparr>activityReports := Some cached, lastFetch := Some now\<rparr>
          \<and> trace w' = trace w @ [Callback cached]
          \<and> length cached \<le> 50
          \<and> (now \<noteq> 0 \<and> now' - now < CACHE_DURATION \<longrightarrow>
               fetchActivityReports st' now' w' = (Returned cached, w')
               \<and> (\<exists>users. fst (calculatePreachingImpact st' now' w') = impactTotals cached users)
               \<and> totalReports (fst (calculatePreachingImpact st' now' w')) \<le> 50
               \<and> (\<exists>categories users.
                     fst (getRecentReports limitCount st' now' w') =
                       recentRows limitCount cached categories users)
               \<and> (\<exists>users. chartSeries cached users = Returned (fst (getChartData st' now' w')))
               \<and> (\<exists>categories.
                     fst (getPieChartData st' now' w') = pieDistribution cached categories))
          \<and> (CACHE_DURATION \<le> now' - now \<longrightarrow>
               fst (fetchActivityReports st now' w') =
                 Returned (map reportOfDoc (activityReports_docs st)))
          \<and> fst (fetchActivityReports st now' (clearCache w')) =
               Returned (map reportOfDoc (activityReports_docs st)))"
proof -
  assume ok: "failing st ''activityReports'' = None"
  define cached where "cached = map reportOfDoc (take 50 (activityReports_docs st))"
  define w' where "w' = listenToActivityReports (activityReports_push st) now w"
  have w'_eq: "w' = \<lparr>dataCache = (dataCache w)\<lparr>activityReports := Some cached,
                                                lastFetch := Some now\<rparr>,
                     trace = trace w @ [Callback cached]\<rparr>"
    by (simp add: w'_def cached_def activityReports_push_ok[OF ok] listenToActivityReports_Next)
  have len: "length cached \<le> 50" by (simp add: cached_def)
  have fresh: "fetchActivityReports st' now' w' = (Returned cached, w')
               \<and> (\<exists>users. fst (calculatePreachingImpact st' now' w') = impactTotals cached users)
               \<and> totalReports (fst (calculatePreachingImpact st' now' w')) \<le> 50
               \<and> (\<exists>categories users.
                     fst (getRecentReports limitCount st' now' w') =
                       recentRows limitCount cached categories users)
               \<and> (\<exists>users. chartSeries cached users = Returned (fst (getChartData st' now' w')))
               \<and> (\<exists>categories.
                     fst (getPieChartData st' now' w') = pieDistribution cached categories)"
    if t: "now \<noteq> 0 \<and> now' - now < CACHE_DURATION"
  proof -
    have rc: "reportsCached now' w'" using t
      by (simp add: reportsCached_def isCacheValid_def w'_eq)
    have ac: "activityReports (dataCache w') = Some cached" by (simp add: w'_eq)
    obtain users where u: "fst (calculatePreachingImpact st' now' w') = impactTotals cached users"
      using calculatePreachingImpact_cached[OF rc ac] by blast
    have tr: "totalReports (fst (calculatePreachingImpact st' now' w')) \<le> 50"
      using len by (simp add: u totalReports_length)
    show ?thesis
      using fetchActivityReports_cached[OF rc ac] calculatePreachingImpact_cached[OF rc ac] tr
        getRecentReports_cached[OF rc ac] getChartData_cached[OF rc ac]
        getPieChartData_cached[OF rc ac]
      by blast
  qed
  have expired: "fst (fetchActivityReports st now' w') =
                 Returned (map reportOfDoc (activityReports_docs st))"
    if "CACHE_DURATION \<le> now' - now"
    using that ok
    by (simp add: fetchActivityReports_cases reportsCached_def isCacheValid_def w'_eq)
  have cleared: "fst (fetchActivityReports st now' (clearCache w')) =
               Returned (map reportOfDoc (activityReports_docs st))"
    using ok
    by (simp add: fetchActivityReports_cases reportsCached_def isCacheValid_def clearCache_def
          emptyCache_def)
  show ?thesis
    unfolding Let_def w'_def[symmetric] cached_def[symmetric]
    using listenToActivityReports_Next[of docs now w] w'_eq len fresh expired cleared
    by simp
qed

text \<open>
  A store with 52 reports: after a push the impact totals count 50 reports; after
  \<open>clearCache\<close> the fetch returns 52.
\<close>

theorem live_update_truncates_witness:
  "failing bigStore ''activityReports'' = None
   \<and> ((1000::int) \<noteq> 0 \<and> 2000 - 1000 < CACHE_DURATION)
   \<and> length (activityReports_docs bigStore) = 52
   \<and> totalReports
       (fst (calculatePreachingImpact bigStore 2000
               (listenToActivityReports (activityReports_push bigStore) 1000 freshWorld))) = 50
   \<and> fst (fetchActivityReports bigStore 2000
            (clearCache (listenToActivityReports (activityReports_push bigStore) 1000 freshWorld)))
       = Returned (replicate 52 (blankReport\<lparr>report_id := Some ''r''\<rparr>))"
proof -
  have ok: "failing bigStore ''activityReports'' = None" by (simp add: bigStore_def)
  have t: "(1000::int) \<noteq> 0 \<and> 2000 - 1000 < CACHE_DURATION" by (simp add: CACHE_DURATION_def)
  have docs: "map reportOfDoc (activityReports_docs bigStore) =
                replicate 52 (blankReport\<lparr>report_id := Some ''r''\<rparr>)"
    by (simp add: bigStore_def reportOfDoc_def blankReport_def)
  have cached: "map reportOfDoc (take 50 (activityReports_docs bigStore)) =
                replicate 50 (blankReport\<lparr>report_id := Some ''r''\<rparr>)"
    by (simp add: bigStore_def reportOfDoc_def blankReport_def)
  note th = live_update_truncates [OF ok, of "[]" 1000 freshWorld 2000 bigStore 10]
  from th t obtain users where
    "fst (calculatePreachingImpact bigStore 2000
               (listenToActivityReports (activityReports_push bigStore) 1000 freshWorld))
       = impactTotals (map reportOfDoc (take 50 (activityReports_docs bigStore))) users"
    unfolding Let_def by blast
  then have a: "totalReports
       (fst (calculatePreachingImpact bigStore 2000
               (listenToActivityReports (activityReports_push bigStore) 1000 freshWorld))) = 50"
    by (simp add: totalReports_length cached)
  from th have b: "fst (fetchActivityReports bigStore 2000
            (clearCache (listenToActivityReports (activityReports_push bigStore) 1000 freshWorld)))
       = Returned (replicate 52 (blankReport\<lparr>report_id := Some ''r''\<rparr>))"
    unfolding Let_def docs by blast
  have c: "length (activityReports_docs bigStore) = 52" by (simp add: bigStore_def)
  from ok t a b c show ?thesis by blast
qed

text \<open>What the two listeners do when the subscription reports an error.\<close>

lemma listenToActivityReports_error:
  "listenToActivityReports (SubscriptionError e) now w =
     w\<lparr>trace := trace w @ [ConsoleError ''Uncaught Error in snapshot listener:'']\<rparr>"
  by (simp add: listenToActivityReports_def onSnapshot_def emit_def)

lemma listenToResources_error_fallback:
  "trace (listenToResources normalise cat (SubscriptionError e) rst w) =
     trace w @
       (case resources_failing rst of
          None \<Rightarrow>
            [ConsoleError ''Real-time listener error for resources:'',
             GetDocs ''preachingResources'',
             Callback (normalise (resource_docs rst (resourceFilter cat)))]
        | Some fe \<Rightarrow>
            [ConsoleError ''Real-time listener error for resources:'',
             GetDocs ''preachingResources'',
             ConsoleError ''Error fetching resources:'',
             Callback []])"
  by (simp add: listenToResources_def onSnapshot_def listenToResources_error_def
        fetchResources_def fetchResources_try_def getDocs_resources_def emit_def Let_def
        split: option.splits)

text \<open>
  Claim C4 asks that a subscription error leads to one fetch and one callback, for the
  reports listener and for the resources listener. \<open>listenToResources\<close> passes an error
  callback that does so. \<open>listenToActivityReports\<close> passes none: on a subscription error it
  fetches nothing and never calls the callback; the client library writes the error to the
  console.
\<close>

theorem reports_listener_error_no_fallback:
  "trace (listenToActivityReports (SubscriptionError (StoreError ''permission-denied'')) 1000
            freshWorld)
     = [ConsoleError ''Uncaught Error in snapshot listener:'']
   \<and> filter is_fetch
        (trace (listenToActivityReports (SubscriptionError (StoreError ''permission-denied''))
                  1000 freshWorld)) = []
   \<and> filter is_callback
        (trace (listenToActivityReports (SubscriptionError (StoreError ''permission-denied''))
                  1000 freshWorld)) = []
   \<and> trace (listenToResources (map (\<lambda>d. (d, ''normalised''))) None
              (SubscriptionError (StoreError ''permission-denied''))
              \<lparr>resource_docs = (\<lambda>c. [''doc1'', ''doc2'']), resources_failing = None\<rparr>
              freshWorld)
     = [ConsoleError ''Real-time listener error for resources:'',
        GetDocs ''preachingResources'',
        Callback [(''doc1'', ''normalised''), (''doc2'', ''normalised'')]]"
  by (simp add: listenToActivityReports_error listenToResources_error_fallback freshWorld_def
        is_fetch_def is_callback_def resourceFilter_def truthy_str_def)

end
